theory Spec2Isabelle
  imports Main "HOL-Library.Word"
begin

section \<open>Buffers\<close>

text \<open>
  A Node \<open>Buffer\<close> is a list of bytes.  Reads and writes outside the buffer, and writes
  of a value outside the range of the field, raise a range error in Node; the model
  returns it as \<open>Inl\<close>.
\<close>

type_synonym byte = "8 word"
type_synonym buffer = "byte list"

datatype js_error =
    ERR_OUT_OF_RANGE
  | Invalid_input_parameters
  | Socket_is_not_initialized
  | TIMEOUT_ON_WRITING_MESSAGE
  | WriteError string
  | Failed_to_set_user js_error

definition bindE :: "'e + 'a \<Rightarrow> ('a \<Rightarrow> 'e + 'b) \<Rightarrow> 'e + 'b" where
  "bindE m f = (case m of Inl e \<Rightarrow> Inl e | Inr x \<Rightarrow> f x)"

definition alloc :: "nat \<Rightarrow> buffer" where
  "alloc n = replicate n 0"

definition readUInt16LE :: "buffer \<Rightarrow> nat \<Rightarrow> js_error + nat" where
  "readUInt16LE buf off =
     (if off + 2 \<le> length buf
      then Inr (unat (buf ! off) + 256 * unat (buf ! (off + 1)))
      else Inl ERR_OUT_OF_RANGE)"

definition readUInt32LE :: "buffer \<Rightarrow> nat \<Rightarrow> js_error + nat" where
  "readUInt32LE buf off =
     (if off + 4 \<le> length buf
      then Inr (unat (buf ! off) + 256 * unat (buf ! (off + 1))
                + 65536 * unat (buf ! (off + 2)) + 16777216 * unat (buf ! (off + 3)))
      else Inl ERR_OUT_OF_RANGE)"

definition writeUInt16LE :: "buffer \<Rightarrow> nat \<Rightarrow> nat \<Rightarrow> js_error + buffer" where
  "writeUInt16LE buf v off =
     (if 65535 < v \<or> length buf < off + 2 then Inl ERR_OUT_OF_RANGE
      else Inr (buf[off := of_nat (v mod 256), off + 1 := of_nat (v div 256)]))"

definition writeUInt32LE :: "buffer \<Rightarrow> nat \<Rightarrow> nat \<Rightarrow> js_error + buffer" where
  "writeUInt32LE buf v off =
     (if 4294967295 < v \<or> length buf < off + 4 then Inl ERR_OUT_OF_RANGE
      else Inr (buf[off := of_nat (v mod 256),
                    off + 1 := of_nat (v div 256 mod 256),
                    off + 2 := of_nat (v div 65536 mod 256),
                    off + 3 := of_nat (v div 16777216)]))"

text \<open>\<open>src.copy(dst, off)\<close>: the bytes of \<open>src\<close> that fit are written into \<open>dst\<close> from \<open>off\<close>.\<close>

definition copy :: "buffer \<Rightarrow> buffer \<Rightarrow> nat \<Rightarrow> buffer" where
  "copy src dst off =
     take off dst @ take (length dst - off) src @ drop (off + length src) dst"

section \<open>Constants\<close>

text \<open>
  Modelled from the spec: \<open>constants.ts\<close> is not among the sources.  \<open>USHRT_MAX\<close> is the
  constant of the checksum formula, which the spec gives as
  \<open>65535 - sum - 1\<close> where the code has \<open>USHRT_MAX - checkSum - 1\<close>.
\<close>

definition USHRT_MAX :: nat where
  "USHRT_MAX = 65535"

text \<open>
  The opcodes of \<open>COMMANDS\<close> are not given by the spec either; the operations below take
  the table as a parameter.
\<close>

record commands =
  CMD_CONNECT :: nat
  CMD_EXIT :: nat
  CMD_REG_EVENT :: nat
  EF_ATTLOG :: nat
  CMD_DATA :: nat
  CMD_ACK_OK :: nat
  CMD_PREPARE_DATA :: nat
  CMD_DATA_WRRQ :: nat
  CMD_DATA_RDY :: nat
  CMD_FREE_DATA :: nat
  CMD_USER_WRQ :: nat

section \<open>Codec (utils.ts)\<close>

record date_args =
  year :: nat
  month :: nat
  day :: nat
  hour :: nat
  minute :: nat
  second :: nat

text \<open>
  \<open>parseTimeToDate\<close>; the result is the argument list handed to the \<open>Date\<close> constructor.
  Every division of the source is exact, the remainder having been subtracted first.
\<close>

definition parseTimeToDate :: "nat \<Rightarrow> date_args" where
  "parseTimeToDate time0 =
     (let second = time0 mod 60;
          time1 = (time0 - second) div 60;
          minute = time1 mod 60;
          time2 = (time1 - minute) div 60;
          hour = time2 mod 24;
          time3 = (time2 - hour) div 24;
          day = (time3 mod 31) + 1;
          time4 = (time3 - (day - 1)) div 31;
          month = time4 mod 12;
          time5 = (time4 - month) div 12;
          year = time5 + 2000
      in \<lparr>year = year, month = month, day = day, hour = hour, minute = minute,
          second = second\<rparr>)"

text \<open>The loop of \<open>createCheckSum\<close>, with its index \<open>i\<close> and its accumulator.\<close>

function checkSumLoop :: "buffer \<Rightarrow> nat \<Rightarrow> nat \<Rightarrow> nat" where
  "checkSumLoop buf i checkSum =
     (if i < length buf
      then checkSumLoop buf (i + 2)
             ((if i = length buf - 1
               then checkSum + unat (buf ! i)
               else checkSum + (unat (buf ! i) + 256 * unat (buf ! (i + 1))))
              mod USHRT_MAX)
      else checkSum)"
  by pat_completeness auto
termination
  by (relation "measure (\<lambda>(buf, i, checkSum). length buf - i)") auto

declare checkSumLoop.simps [simp del]

definition createCheckSum :: "buffer \<Rightarrow> nat" where
  "createCheckSum buf = USHRT_MAX - checkSumLoop buf 0 0 - 1"

definition createUDPHeader :: "nat \<Rightarrow> nat \<Rightarrow> nat \<Rightarrow> buffer \<Rightarrow> js_error + buffer" where
  "createUDPHeader command sessionId replyId data =
     bindE (writeUInt16LE (alloc (8 + length data)) command 0) (\<lambda>buf1.
     bindE (writeUInt16LE buf1 0 2) (\<lambda>buf2.
     bindE (writeUInt16LE buf2 sessionId 4) (\<lambda>buf3.
     bindE (writeUInt16LE buf3 replyId 6) (\<lambda>buf4.
     let buf5 = copy data buf4 8;
         checkSum2 = createCheckSum buf5
     in bindE (writeUInt16LE buf5 checkSum2 2) (\<lambda>buf6.
        writeUInt16LE buf6 ((replyId + 1) mod USHRT_MAX) 6)))))"

definition prefixBuf :: buffer where
  "prefixBuf = [0x50, 0x50, 0x82, 0x7d, 0x13, 0x00, 0x00, 0x00]"

definition createTCPHeader :: "nat \<Rightarrow> nat \<Rightarrow> nat \<Rightarrow> buffer \<Rightarrow> js_error + buffer" where
  "createTCPHeader command sessionId replyId data =
     bindE (writeUInt16LE (alloc (8 + length data)) command 0) (\<lambda>buf1.
     bindE (writeUInt16LE buf1 0 2) (\<lambda>buf2.
     bindE (writeUInt16LE buf2 sessionId 4) (\<lambda>buf3.
     bindE (writeUInt16LE buf3 replyId 6) (\<lambda>buf4.
     let buf5 = copy data buf4 8;
         checkSum2 = createCheckSum buf5
     in bindE (writeUInt16LE buf5 checkSum2 2) (\<lambda>buf6.
        bindE (writeUInt16LE buf6 ((replyId + 1) mod USHRT_MAX) 6) (\<lambda>buf.
        bindE (writeUInt16LE prefixBuf (length buf) 4) (\<lambda>prefix.
        Inr (prefix @ buf))))))))"

definition TCP_HEADER_SIGNATURE :: buffer where
  "TCP_HEADER_SIGNATURE = [0x50, 0x50, 0x82, 0x7d]"

definition removeTcpHeader :: "buffer \<Rightarrow> buffer" where
  "removeTcpHeader buf =
     (if length buf < 8 then buf
      else if take 4 buf \<noteq> take 4 TCP_HEADER_SIGNATURE then buf
      else drop 8 buf)"

record udp_header =
  commandId :: nat
  checkSum :: nat
  sessionId :: nat
  replyId :: nat

text \<open>\<open>decodeUDPHeader\<close>; \<open>readUIntLE(off, 2)\<close> reads as \<open>readUInt16LE(off)\<close> does.\<close>

definition decodeUDPHeader :: "buffer \<Rightarrow> js_error + udp_header" where
  "decodeUDPHeader header =
     bindE (readUInt16LE header 0) (\<lambda>c.
     bindE (readUInt16LE header 2) (\<lambda>k.
     bindE (readUInt16LE header 4) (\<lambda>s.
     bindE (readUInt16LE header 6) (\<lambda>r.
     Inr \<lparr>commandId = c, checkSum = k, sessionId = s, replyId = r\<rparr>))))"

text \<open>
  \<open>checkNotEventTCP\<close>: the \<open>try\<close> block is the inner computation, the \<open>catch\<close> branch
  (which logs) is the \<open>Inl\<close> case.
\<close>

definition checkNotEventTCP :: "commands \<Rightarrow> buffer \<Rightarrow> bool" where
  "checkNotEventTCP C data0 =
     (let data = removeTcpHeader data0 in
      case bindE (readUInt16LE data 0) (\<lambda>c.
           bindE (readUInt16LE data 4) (\<lambda>event.
           Inr (event = EF_ATTLOG C \<and> c = CMD_REG_EVENT C)))
      of Inl err \<Rightarrow> False | Inr b \<Rightarrow> b)"

text \<open>\<open>checkNotEventUDP\<close> has no \<open>try\<close>: a range error of the decoder propagates.\<close>

definition checkNotEventUDP :: "commands \<Rightarrow> buffer \<Rightarrow> js_error + bool" where
  "checkNotEventUDP C data =
     bindE (decodeUDPHeader (take 8 data)) (\<lambda>h. Inr (commandId h = CMD_REG_EVENT C))"

section \<open>Promises and the network\<close>

text \<open>
  A promise is settled once, or never.  What the peer does after a message has been handed
  to the socket is an input of the model: the write fails, a reply arrives, or nothing
  arrives.
\<close>

datatype 'a promise = Resolved 'a | Rejected js_error | Pending

datatype net_event = WriteFails string | ReplyArrives buffer | NoReply

text \<open>\<open>this.sessionId!\<close> handed to \<open>writeUInt16LE\<close>: \<open>null\<close> is coerced to 0.\<close>

definition sessionIdValue :: "nat option \<Rightarrow> nat" where
  "sessionIdValue s = (case s of None \<Rightarrow> 0 | Some v \<Rightarrow> v)"

section \<open>The TCP transport (ZKLibTCP)\<close>

text \<open>
  A \<open>net.Socket\<close> object: whether the runtime has destroyed it, and which of the one-shot
  listeners that \<open>createSocket\<close> installs on it are still installed.
\<close>

record net_Socket =
  destroyed :: bool
  onceError :: bool
  onceConnect :: bool
  onceClose :: bool

text \<open>
  The fields of the class the operations below use.  \<open>createSocket\<close> may run more than once,
  and the listeners of an earlier socket stay installed on it, so the socket objects live
  in a store, \<open>tcp_sockets\<close>, and the field \<open>socket\<close> is a reference into it (an index).
  \<open>tcp_wire\<close> lists, in order, the buffers handed to \<open>socket.write\<close>.
\<close>

record ZKLibTCP =
  tcp_ip :: string
  tcp_port :: nat
  tcp_timeout :: nat
  tcp_sessionId :: "nat option"
  tcp_replyId :: nat
  tcp_socket :: "nat option"
  tcp_socketStatus :: string
  tcp_sockets :: "net_Socket list"
  tcp_wire :: "buffer list"

definition new_ZKLibTCP :: "string \<Rightarrow> nat \<Rightarrow> nat \<Rightarrow> ZKLibTCP" where
  "new_ZKLibTCP ip_arg port timeout =
     \<lparr>tcp_ip = ip_arg, tcp_port = port, tcp_timeout = timeout, tcp_sessionId = None,
      tcp_replyId = 0, tcp_socket = None, tcp_socketStatus = ''Closed'', tcp_sockets = [],
      tcp_wire = []\<rparr>"

text \<open>
  \<open>createSocket\<close> makes a fresh socket the current one and installs three one-shot
  listeners on it.  The runtime then acts on a socket \<open>a\<close> of the store: it emits
  \<open>connect\<close> on a socket that is not destroyed, it destroys a socket, and it emits \<open>error\<close>
  and \<open>close\<close> only on a socket it has destroyed.  The listeners are those of
  \<open>createSocket\<close>; they assign to the fields of the object, whichever socket is current.
  The callbacks \<open>cbError\<close> and \<open>cbClose\<close> that the listeners call are code of the caller:
  what they do to the object shows as the events that follow.  \<open>NullSockets\<close> is the
  assignment \<open>this.zklibTcp.socket = null\<close> of the client's \<open>cleanupSockets\<close>.
\<close>

datatype tcp_event =
  CreateSocket | EmitConnect nat | Destroy nat | EmitError nat | EmitClose nat | NullSockets

definition updateSocket :: "ZKLibTCP \<Rightarrow> nat \<Rightarrow> (net_Socket \<Rightarrow> net_Socket) \<Rightarrow> ZKLibTCP" where
  "updateSocket st a f = st\<lparr>tcp_sockets := (tcp_sockets st)[a := f (tcp_sockets st ! a)]\<rparr>"

fun tcp_step :: "ZKLibTCP \<Rightarrow> tcp_event \<Rightarrow> ZKLibTCP" where
  "tcp_step st CreateSocket =
     st\<lparr>tcp_socket := Some (length (tcp_sockets st)),
        tcp_sockets := tcp_sockets st
          @ [\<lparr>destroyed = False, onceError = True, onceConnect = True, onceClose = True\<rparr>]\<rparr>"
| "tcp_step st (EmitConnect a) =
     (if a < length (tcp_sockets st) \<and> \<not> destroyed (tcp_sockets st ! a)
         \<and> onceConnect (tcp_sockets st ! a)
      then (updateSocket st a (\<lambda>s. s\<lparr>onceConnect := False\<rparr>))\<lparr>tcp_socketStatus := ''Open''\<rparr>
      else st)"
| "tcp_step st (Destroy a) =
     (if a < length (tcp_sockets st) then updateSocket st a (\<lambda>s. s\<lparr>destroyed := True\<rparr>)
      else st)"
| "tcp_step st (EmitError a) =
     (if a < length (tcp_sockets st) \<and> destroyed (tcp_sockets st ! a)
         \<and> onceError (tcp_sockets st ! a)
      then (updateSocket st a (\<lambda>s. s\<lparr>onceError := False\<rparr>))\<lparr>tcp_socketStatus := ''Error''\<rparr>
      else st)"
| "tcp_step st (EmitClose a) =
     (if a < length (tcp_sockets st) \<and> destroyed (tcp_sockets st ! a)
         \<and> onceClose (tcp_sockets st ! a)
      then (updateSocket st a (\<lambda>s. s\<lparr>onceClose := False\<rparr>))
             \<lparr>tcp_socket := None, tcp_socketStatus := ''Closed''\<rparr>
      else st)"
| "tcp_step st NullSockets = st\<lparr>tcp_socket := None\<rparr>"

definition tcp_run :: "ZKLibTCP \<Rightarrow> tcp_event list \<Rightarrow> ZKLibTCP" where
  "tcp_run st evs = foldl tcp_step st evs"

definition getSocketStatus_tcp :: "ZKLibTCP \<Rightarrow> string" where
  "getSocketStatus_tcp st =
     (case tcp_socket st of None \<Rightarrow> ''No socket instance''
      | Some a \<Rightarrow> if destroyed (tcp_sockets st ! a) then ''Closed'' else tcp_socketStatus st)"

text \<open>
  \<open>writeMessage\<close>: with no socket neither the listener nor the write happens, and the
  promise is never settled; the timer is armed only when \<open>this.timeout\<close> is not 0
  (after 2000 ms when \<open>connect\<close> is set, after \<open>this.timeout\<close> otherwise).
\<close>

definition writeMessage_tcp ::
  "ZKLibTCP \<Rightarrow> buffer \<Rightarrow> bool \<Rightarrow> net_event \<Rightarrow> buffer promise \<times> ZKLibTCP" where
  "writeMessage_tcp st msg connect ev =
     (case tcp_socket st of None \<Rightarrow> (Pending, st)
      | Some s \<Rightarrow>
          let st' = st\<lparr>tcp_wire := tcp_wire st @ [msg]\<rparr> in
          (case ev of
             WriteFails e \<Rightarrow> (Rejected (WriteError e), st')
           | ReplyArrives data \<Rightarrow> (Resolved data, st')
           | NoReply \<Rightarrow>
               (if tcp_timeout st \<noteq> 0 then Rejected TIMEOUT_ON_WRITING_MESSAGE else Pending,
                st')))"

definition executeCmd_tcp ::
  "commands \<Rightarrow> ZKLibTCP \<Rightarrow> nat \<Rightarrow> buffer \<Rightarrow> net_event \<Rightarrow> buffer promise \<times> ZKLibTCP" where
  "executeCmd_tcp C st command data ev =
     (let st1 = (if command = CMD_CONNECT C
                 then st\<lparr>tcp_sessionId := Some 0, tcp_replyId := 0\<rparr>
                 else st\<lparr>tcp_replyId := tcp_replyId st + 1\<rparr>)
      in case createTCPHeader command (sessionIdValue (tcp_sessionId st1)) (tcp_replyId st1) data
         of Inl e \<Rightarrow> (Rejected e, st1)
          | Inr buf \<Rightarrow>
             (case writeMessage_tcp st1 buf
                     (command = CMD_CONNECT C \<or> command = CMD_EXIT C) ev
              of (Resolved reply, st2) \<Rightarrow>
                   (let rReply = removeTcpHeader reply in
                    if rReply \<noteq> [] \<and> command = CMD_CONNECT C
                    then (case readUInt16LE rReply 4 of
                            Inl e \<Rightarrow> (Rejected e, st2)
                          | Inr sid \<Rightarrow> (Resolved rReply, st2\<lparr>tcp_sessionId := Some sid\<rparr>))
                    else (Resolved rReply, st2))
               | (Rejected e, st2) \<Rightarrow> (Rejected e, st2)
               | (Pending, st2) \<Rightarrow> (Pending, st2)))"

text \<open>\<open>connect\<close>: a \<open>Buffer\<close>, empty or not, is truthy, so the \<open>else\<close> branch is dead.\<close>

definition connect_tcp :: "commands \<Rightarrow> ZKLibTCP \<Rightarrow> net_event \<Rightarrow> bool promise \<times> ZKLibTCP" where
  "connect_tcp C st ev =
     (case executeCmd_tcp C st (CMD_CONNECT C) [] ev of
        (Resolved reply, st') \<Rightarrow> (Resolved True, st')
      | (Rejected e, st') \<Rightarrow> (Rejected e, st')
      | (Pending, st') \<Rightarrow> (Pending, st'))"

text \<open>The eight bytes \<open>reqData\<close> of \<open>sendChunkRequest\<close>.\<close>

definition chunkRequestBody :: "nat \<Rightarrow> nat \<Rightarrow> js_error + buffer" where
  "chunkRequestBody start sz =
     bindE (writeUInt32LE (alloc 8) start 0) (\<lambda>reqData. writeUInt32LE reqData sz 4)"

text \<open>
  \<open>sendChunkRequest\<close>: the state is returned also when a write into a buffer throws,
  because the counter has been incremented by then.
\<close>

definition sendChunkRequest_tcp ::
  "commands \<Rightarrow> ZKLibTCP \<Rightarrow> nat \<Rightarrow> nat \<Rightarrow> (js_error + unit) \<times> ZKLibTCP" where
  "sendChunkRequest_tcp C st start sz =
     (let st1 = st\<lparr>tcp_replyId := tcp_replyId st + 1\<rparr> in
      case bindE (chunkRequestBody start sz)
             (createTCPHeader (CMD_DATA_RDY C) (sessionIdValue (tcp_sessionId st1))
                (tcp_replyId st1))
      of Inl e \<Rightarrow> (Inl e, st1)
       | Inr buf \<Rightarrow>
           (Inr (), case tcp_socket st1 of None \<Rightarrow> st1
                    | Some s \<Rightarrow> st1\<lparr>tcp_wire := tcp_wire st1 @ [buf]\<rparr>))"

text \<open>The \<open>for\<close> loop at the end of the chunked branch of \<open>readWithBuffer\<close>.\<close>

function chunkLoop_tcp ::
  "commands \<Rightarrow> nat \<Rightarrow> nat \<Rightarrow> nat \<Rightarrow> nat \<Rightarrow> ZKLibTCP \<Rightarrow> (js_error + unit) \<times> ZKLibTCP" where
  "chunkLoop_tcp C MAX_CHUNK numberChunks remain i st =
     (if i \<le> numberChunks
      then (case (if i = numberChunks
                  then sendChunkRequest_tcp C st (numberChunks * MAX_CHUNK) remain
                  else sendChunkRequest_tcp C st (i * MAX_CHUNK) MAX_CHUNK)
            of (Inl e, st') \<Rightarrow> (Inl e, st')
             | (Inr u, st') \<Rightarrow> chunkLoop_tcp C MAX_CHUNK numberChunks remain (i + 1) st')
      else (Inr (), st))"
  by pat_completeness auto
termination
  by (relation "measure (\<lambda>(C, M, numberChunks, remain, i, st). numberChunks + 1 - i)") auto

declare chunkLoop_tcp.simps [simp del]

text \<open>
  The chunk arithmetic of \<open>readWithBuffer\<close> (where \<open>sz\<close> is \<open>size\<close>) followed by its
  loop.  \<open>size - remain\<close> is a multiple of \<open>MAX_CHUNK\<close>, so \<open>Math.round\<close> changes nothing
  and the division is exact.
\<close>

definition requestChunks_tcp ::
  "commands \<Rightarrow> nat \<Rightarrow> ZKLibTCP \<Rightarrow> nat \<Rightarrow> (js_error + unit) \<times> ZKLibTCP" where
  "requestChunks_tcp C MAX_CHUNK st sz =
     (let remain = sz mod MAX_CHUNK;
          numberChunks = (sz - remain) div MAX_CHUNK
      in chunkLoop_tcp C MAX_CHUNK numberChunks remain 0 st)"

section \<open>The UDP transport (ZKLibUDP)\<close>

text \<open>A datagram socket is bound to a port or not; \<open>address()\<close> throws when it is not.\<close>

record dgram_Socket =
  boundPort :: "nat option"

record ZKLibUDP =
  udp_ip :: string
  udp_port :: nat
  udp_timeout :: nat
  udp_socket :: "dgram_Socket option"
  udp_sessionId :: "nat option"
  udp_replyId :: nat
  udp_inport :: nat
  udp_wire :: "buffer list"

definition new_ZKLibUDP :: "string \<Rightarrow> nat \<Rightarrow> nat \<Rightarrow> nat \<Rightarrow> ZKLibUDP" where
  "new_ZKLibUDP ip_arg port timeout inport =
     \<lparr>udp_ip = ip_arg, udp_port = port, udp_timeout = timeout, udp_socket = None,
      udp_sessionId = None, udp_replyId = 0, udp_inport = inport, udp_wire = []\<rparr>"

text \<open>
  \<open>createSocket\<close> of the UDP class creates the socket and binds it to \<open>inport\<close>; the
  runtime reports the port it is listening on.  The error and close listeners drop the
  socket.
\<close>

datatype udp_event = UdpCreateSocket | UdpListening nat | UdpEmitError | UdpEmitClose

fun udp_step :: "ZKLibUDP \<Rightarrow> udp_event \<Rightarrow> ZKLibUDP" where
  "udp_step st UdpCreateSocket = st\<lparr>udp_socket := Some \<lparr>boundPort = None\<rparr>\<rparr>"
| "udp_step st (UdpListening port) =
     (case udp_socket st of None \<Rightarrow> st
      | Some s \<Rightarrow> st\<lparr>udp_socket := Some (s\<lparr>boundPort := Some port\<rparr>)\<rparr>)"
| "udp_step st UdpEmitError = st\<lparr>udp_socket := None\<rparr>"
| "udp_step st UdpEmitClose = st\<lparr>udp_socket := None\<rparr>"

definition udp_run :: "ZKLibUDP \<Rightarrow> udp_event list \<Rightarrow> ZKLibUDP" where
  "udp_run st evs = foldl udp_step st evs"

definition digitChar :: "nat \<Rightarrow> char" where
  "digitChar d = ''0123456789abcdefghijklmnopqrstuvwxyz'' ! d"

text \<open>\<open>Number.prototype.toString(radix)\<close> on a natural number.\<close>

function toStringRadix :: "nat \<Rightarrow> nat \<Rightarrow> string" where
  "toStringRadix radix n =
     (if radix < 2 \<or> n < radix then [digitChar n]
      else toStringRadix radix (n div radix) @ [digitChar (n mod radix)])"
  by pat_completeness auto
termination
  by (relation "measure (\<lambda>(radix, n). n)") auto

declare toStringRadix.simps [simp del]

definition getSocketStatus_udp :: "ZKLibUDP \<Rightarrow> string" where
  "getSocketStatus_udp st =
     (case udp_socket st of None \<Rightarrow> ''No socket instance''
      | Some s \<Rightarrow>
          (case boundPort s of
             Some port \<Rightarrow> ''Bound to port '' @ toStringRadix 10 port
           | None \<Rightarrow> ''Unbound''))"

definition writeMessage_udp ::
  "ZKLibUDP \<Rightarrow> buffer \<Rightarrow> bool \<Rightarrow> net_event \<Rightarrow> buffer promise \<times> ZKLibUDP" where
  "writeMessage_udp st msg connect ev =
     (case udp_socket st of None \<Rightarrow> (Rejected Socket_is_not_initialized, st)
      | Some s \<Rightarrow>
          let st' = st\<lparr>udp_wire := udp_wire st @ [msg]\<rparr> in
          (case ev of
             WriteFails e \<Rightarrow> (Rejected (WriteError e), st')
           | ReplyArrives data \<Rightarrow> (Resolved data, st')
           | NoReply \<Rightarrow>
               (if udp_timeout st \<noteq> 0 then Rejected TIMEOUT_ON_WRITING_MESSAGE else Pending,
                st')))"

definition executeCmd_udp ::
  "commands \<Rightarrow> ZKLibUDP \<Rightarrow> nat \<Rightarrow> buffer \<Rightarrow> net_event \<Rightarrow> buffer promise \<times> ZKLibUDP" where
  "executeCmd_udp C st command data ev =
     (let st1 = (if command = CMD_CONNECT C
                 then st\<lparr>udp_sessionId := Some 0, udp_replyId := 0\<rparr>
                 else st\<lparr>udp_replyId := udp_replyId st + 1\<rparr>)
      in case createUDPHeader command (sessionIdValue (udp_sessionId st1)) (udp_replyId st1) data
         of Inl e \<Rightarrow> (Rejected e, st1)
          | Inr buf \<Rightarrow>
             (case writeMessage_udp st1 buf
                     (command = CMD_CONNECT C \<or> command = CMD_EXIT C) ev
              of (Resolved reply, st2) \<Rightarrow>
                   (if reply \<noteq> [] \<and> command = CMD_CONNECT C
                    then (case readUInt16LE reply 4 of
                            Inl e \<Rightarrow> (Rejected e, st2)
                          | Inr sid \<Rightarrow> (Resolved reply, st2\<lparr>udp_sessionId := Some sid\<rparr>))
                    else (Resolved reply, st2))
               | (Rejected e, st2) \<Rightarrow> (Rejected e, st2)
               | (Pending, st2) \<Rightarrow> (Pending, st2)))"

text \<open>\<open>sendChunkRequest\<close> of the UDP class returns, after logging, when there is no socket.\<close>

definition sendChunkRequest_udp ::
  "commands \<Rightarrow> ZKLibUDP \<Rightarrow> nat \<Rightarrow> nat \<Rightarrow> (js_error + unit) \<times> ZKLibUDP" where
  "sendChunkRequest_udp C st start sz =
     (case udp_socket st of None \<Rightarrow> (Inr (), st)
      | Some s \<Rightarrow>
          let st1 = st\<lparr>udp_replyId := udp_replyId st + 1\<rparr> in
          (case bindE (chunkRequestBody start sz)
                  (createUDPHeader (CMD_DATA_RDY C) (sessionIdValue (udp_sessionId st1))
                     (udp_replyId st1))
           of Inl e \<Rightarrow> (Inl e, st1)
            | Inr buf \<Rightarrow> (Inr (), st1\<lparr>udp_wire := udp_wire st1 @ [buf]\<rparr>)))"

text \<open>The \<open>for\<close> loop at the end of \<open>handlePreparedData\<close>.\<close>

function chunkLoop_udp ::
  "commands \<Rightarrow> nat \<Rightarrow> nat \<Rightarrow> nat \<Rightarrow> nat \<Rightarrow> ZKLibUDP \<Rightarrow> (js_error + unit) \<times> ZKLibUDP" where
  "chunkLoop_udp C MAX_CHUNK numberChunks remain i st =
     (if i \<le> numberChunks
      then (case (if i = numberChunks
                  then sendChunkRequest_udp C st (numberChunks * MAX_CHUNK) remain
                  else sendChunkRequest_udp C st (i * MAX_CHUNK) MAX_CHUNK)
            of (Inl e, st') \<Rightarrow> (Inl e, st')
             | (Inr u, st') \<Rightarrow> chunkLoop_udp C MAX_CHUNK numberChunks remain (i + 1) st')
      else (Inr (), st))"
  by pat_completeness auto
termination
  by (relation "measure (\<lambda>(C, M, numberChunks, remain, i, st). numberChunks + 1 - i)") auto

declare chunkLoop_udp.simps [simp del]

text \<open>The chunk arithmetic of \<open>handlePreparedData\<close> (where \<open>sz\<close> is \<open>size\<close>) and its loop.\<close>

definition requestChunks_udp ::
  "commands \<Rightarrow> nat \<Rightarrow> ZKLibUDP \<Rightarrow> nat \<Rightarrow> (js_error + unit) \<times> ZKLibUDP" where
  "requestChunks_udp C MAX_CHUNK st sz =
     (let numberChunks = sz div MAX_CHUNK;
          remain = sz mod MAX_CHUNK
      in chunkLoop_udp C MAX_CHUNK numberChunks remain 0 st)"

subsection \<open>Reassembly in handlePreparedData\<close>

text \<open>
  The promise of \<open>handlePreparedData\<close> with the variables its closures share.  The first
  timer and the timer armed by the listener resolve with different messages, built from
  the values at the time of expiry; \<open>progress\<close> lists the calls of \<open>cb\<close>.
\<close>

datatype read_error =
    TIMEOUT_WHEN_RECEIVING_PACKET
  | TIMEOUT_REMAIN nat nat
  | ERROR_IN_UNHANDLE_CMD nat

datatype timer_kind = FirstTimer | ListenerTimer

record prepared_udp =
  totalBuffer :: buffer
  timer :: timer_kind
  outcome :: "(buffer \<times> read_error option) promise"
  progress :: "(nat \<times> nat) list"

definition handlePreparedData_init :: prepared_udp where
  "handlePreparedData_init =
     \<lparr>totalBuffer = [], timer = FirstTimer, outcome = Pending, progress = []\<rparr>"

text \<open>\<open>resolve\<close> settles a promise that is pending and does nothing otherwise.\<close>

definition resolve :: "prepared_udp \<Rightarrow> buffer \<times> read_error option \<Rightarrow> prepared_udp" where
  "resolve p v = (if outcome p = Pending then p\<lparr>outcome := Resolved v\<rparr> else p)"

text \<open>
  The listener \<open>handleOnData\<close>; an exception that escapes it is the \<open>Inl\<close> case.  The
  \<open>switch\<close> takes the first label equal to the command id.
\<close>

definition handleOnData_udp ::
  "commands \<Rightarrow> nat \<Rightarrow> prepared_udp \<Rightarrow> buffer \<Rightarrow> js_error + prepared_udp" where
  "handleOnData_udp C sz p reply =
     bindE (checkNotEventUDP C reply) (\<lambda>isEvent.
     if isEvent then Inr p
     else
       let p1 = p\<lparr>timer := ListenerTimer\<rparr> in
       bindE (decodeUDPHeader reply) (\<lambda>header.
       if commandId header = CMD_DATA C
       then (let total = totalBuffer p1 @ drop 8 reply
             in Inr (p1\<lparr>totalBuffer := total, progress := progress p1 @ [(length total, sz)]\<rparr>))
       else if commandId header = CMD_ACK_OK C
       then Inr (if length (totalBuffer p1) = sz then resolve p1 (totalBuffer p1, None) else p1)
       else if commandId header = CMD_PREPARE_DATA C
       then Inr p1
       else Inr (resolve p1 ([], Some (ERROR_IN_UNHANDLE_CMD (commandId header))))))"

definition timerExpires :: "nat \<Rightarrow> prepared_udp \<Rightarrow> prepared_udp" where
  "timerExpires sz p =
     resolve p
       (totalBuffer p,
        Some (case timer p of
                FirstTimer \<Rightarrow> TIMEOUT_WHEN_RECEIVING_PACKET
              | ListenerTimer \<Rightarrow> TIMEOUT_REMAIN sz (length (totalBuffer p))))"

section \<open>setUser (ZKLibTCP)\<close>

text \<open>
  Strings are taken to be ASCII, one byte per character.  \<open>parseInt\<close> with no radix:
  leading white space, a sign, an optional \<open>0x\<close>, then the longest run of digits;
  \<open>None\<close> is \<open>NaN\<close>.
\<close>

definition isWhiteSpace :: "char \<Rightarrow> bool" where
  "isWhiteSpace c = (c \<in> set [CHR '' '', CHR 0x09, CHR 0x0A, CHR 0x0B, CHR 0x0C, CHR 0x0D])"

definition digitOf :: "char \<Rightarrow> nat option" where
  "digitOf c =
     (let n = (of_char c :: nat) in
      if 48 \<le> n \<and> n \<le> 57 then Some (n - 48)
      else if 97 \<le> n \<and> n \<le> 102 then Some (n - 87)
      else if 65 \<le> n \<and> n \<le> 70 then Some (n - 55)
      else None)"

fun parseDigits :: "nat \<Rightarrow> string \<Rightarrow> nat option \<Rightarrow> nat option" where
  "parseDigits radix [] acc = acc"
| "parseDigits radix (c # cs) acc =
     (case digitOf c of
        None \<Rightarrow> acc
      | Some d \<Rightarrow>
          if d < radix
          then parseDigits radix cs
                 (Some (radix * (case acc of None \<Rightarrow> 0 | Some a \<Rightarrow> a) + d))
          else acc)"

definition parseInt :: "string \<Rightarrow> int option" where
  "parseInt s =
     (let s1 = dropWhile isWhiteSpace s;
          neg = (case s1 of [] \<Rightarrow> False | c # r \<Rightarrow> c = CHR ''-'');
          s2 = (case s1 of [] \<Rightarrow> s1
                | c # r \<Rightarrow> if c = CHR ''-'' \<or> c = CHR ''+'' then r else s1);
          hex = (case s2 of a # b # r \<Rightarrow> a = CHR ''0'' \<and> (b = CHR ''x'' \<or> b = CHR ''X'')
                 | _ \<Rightarrow> False)
      in case (if hex then parseDigits 16 (drop 2 s2) None else parseDigits 10 s2 None) of
           None \<Rightarrow> None
         | Some n \<Rightarrow> Some (if neg then - int n else int n))"

text \<open>
  \<open>Number(s)\<close> on a string, after the grammar of numeric string literals: white space is
  trimmed from both ends and the empty string is 0; a literal with the prefix \<open>0x\<close>, \<open>0o\<close> or
  \<open>0b\<close> takes no sign; a decimal literal has an integer part, a fraction or both, and an
  optional exponent; \<open>Infinity\<close> takes a sign; everything else is \<open>NaN\<close>.
\<close>

datatype js_number = Num int | NaN | PosInfinity | NegInfinity

definition isDecimalDigit :: "char \<Rightarrow> bool" where
  "isDecimalDigit c = (48 \<le> (of_char c :: nat) \<and> (of_char c :: nat) \<le> 57)"

definition digitsIn :: "nat \<Rightarrow> string \<Rightarrow> bool" where
  "digitsIn radix s =
     (s \<noteq> [] \<and> list_all (\<lambda>c. case digitOf c of None \<Rightarrow> False | Some d \<Rightarrow> d < radix) s)"

definition digitsValue :: "nat \<Rightarrow> string \<Rightarrow> nat" where
  "digitsValue radix s = (case parseDigits radix s None of None \<Rightarrow> 0 | Some n \<Rightarrow> n)"

definition trim :: "string \<Rightarrow> string" where
  "trim s = rev (dropWhile isWhiteSpace (rev (dropWhile isWhiteSpace s)))"

text \<open>
  The number with mantissa \<open>m\<close> and decimal exponent \<open>k\<close>.  An integer below \<open>2 ^ 53\<close> is a
  double, and the conversion gives it exactly.  Any other value is rounded to a double,
  and its rendering in radix 9 is a matter of floating point: the result is \<open>None\<close>, which
  says that this embedding does not determine it.
\<close>

definition exactNumber :: "bool \<Rightarrow> nat \<Rightarrow> int \<Rightarrow> js_number option" where
  "exactNumber neg m k =
     (if 0 \<le> k
      then (let v = m * 10 ^ nat k
            in if v < 2 ^ 53 then Some (Num (if neg then - int v else int v)) else None)
      else if m mod 10 ^ nat (- k) = 0
      then (let v = m div 10 ^ nat (- k)
            in if v < 2 ^ 53 then Some (Num (if neg then - int v else int v)) else None)
      else None)"

definition exponentPart :: "string \<Rightarrow> int option" where
  "exponentPart r =
     (case r of
        [] \<Rightarrow> Some 0
      | c # x \<Rightarrow>
          if c = CHR ''e'' \<or> c = CHR ''E''
          then (let neg = (case x of [] \<Rightarrow> False | d # y \<Rightarrow> d = CHR ''-'');
                    digits = (case x of [] \<Rightarrow> x
                              | d # y \<Rightarrow> if d = CHR ''-'' \<or> d = CHR ''+'' then y else x)
                in if digits \<noteq> [] \<and> list_all isDecimalDigit digits
                   then Some (if neg then - int (digitsValue 10 digits)
                              else int (digitsValue 10 digits))
                   else None)
          else None)"

definition decimalLiteral :: "string \<Rightarrow> (nat \<times> int) option" where
  "decimalLiteral u =
     (let ip = takeWhile isDecimalDigit u;
          r1 = dropWhile isDecimalDigit u;
          dot = (case r1 of [] \<Rightarrow> False | c # x \<Rightarrow> c = CHR ''.'');
          fp = (if dot then takeWhile isDecimalDigit (tl r1) else []);
          r2 = (if dot then dropWhile isDecimalDigit (tl r1) else r1)
      in if ip = [] \<and> fp = [] then None
         else (case exponentPart r2 of
                 None \<Rightarrow> None
               | Some e \<Rightarrow> Some (digitsValue 10 (ip @ fp), e - int (length fp))))"

definition radixLiteral :: "nat \<Rightarrow> string \<Rightarrow> js_number option" where
  "radixLiteral radix ds =
     (if digitsIn radix ds then exactNumber False (digitsValue radix ds) 0 else Some NaN)"

definition Number_str :: "string \<Rightarrow> js_number option" where
  "Number_str s =
     (case trim s of
        [] \<Rightarrow> Some (Num 0)
      | a # r \<Rightarrow>
          (let p = (case r of [] \<Rightarrow> CHR '' '' | b # y \<Rightarrow> if a = CHR ''0'' then b else CHR '' '')
           in if p = CHR ''x'' \<or> p = CHR ''X'' then radixLiteral 16 (tl r)
              else if p = CHR ''o'' \<or> p = CHR ''O'' then radixLiteral 8 (tl r)
              else if p = CHR ''b'' \<or> p = CHR ''B'' then radixLiteral 2 (tl r)
              else (let neg = (a = CHR ''-'');
                        u = (if a = CHR ''-'' \<or> a = CHR ''+'' then r else a # r)
                    in if u = ''Infinity'' then Some (if neg then NegInfinity else PosInfinity)
                       else (case decimalLiteral u of
                               None \<Rightarrow> Some NaN
                             | Some (m, k) \<Rightarrow> exactNumber neg m k))))"

text \<open>\<open>toString(9)\<close> on such a number.\<close>

definition toString9 :: "js_number \<Rightarrow> string" where
  "toString9 v =
     (case v of
        Num n \<Rightarrow> if n < 0 then CHR ''-'' # toStringRadix 9 (nat (- n)) else toStringRadix 9 (nat n)
      | NaN \<Rightarrow> ''NaN''
      | PosInfinity \<Rightarrow> ''Infinity''
      | NegInfinity \<Rightarrow> ''-Infinity'')"

text \<open>
  \<open>writeUInt16LE\<close> on a JavaScript number: \<open>NaN\<close> passes the range check and is stored as
  0, a negative number fails the range check.
\<close>

definition writeUInt16LE_num :: "buffer \<Rightarrow> int option \<Rightarrow> nat \<Rightarrow> js_error + buffer" where
  "writeUInt16LE_num buf v off =
     (case v of None \<Rightarrow> writeUInt16LE buf 0 off
      | Some i \<Rightarrow> if i < 0 then Inl ERR_OUT_OF_RANGE else writeUInt16LE buf (nat i) off)"

text \<open>\<open>buf.write(string, offset, length)\<close>: at most \<open>length\<close> bytes, and only those that fit.\<close>

definition write_string :: "buffer \<Rightarrow> string \<Rightarrow> nat \<Rightarrow> nat \<Rightarrow> buffer" where
  "write_string buf str off len = copy (take len (map of_char str)) buf off"

definition MAX_UID :: int where
  "MAX_UID = 3000"

definition MAX_USERID_LENGTH :: nat where
  "MAX_USERID_LENGTH = 9"

definition MAX_NAME_LENGTH :: nat where
  "MAX_NAME_LENGTH = 24"

definition MAX_PASSWORD_LENGTH :: nat where
  "MAX_PASSWORD_LENGTH = 8"

definition MAX_CARDNO_LENGTH :: nat where
  "MAX_CARDNO_LENGTH = 10"

text \<open>
  The body of the \<open>try\<close> block of \<open>setUser\<close> up to the call of \<open>executeCmd\<close>.  The result is
  \<open>None\<close> when the run reaches \<open>Number(userid).toString(9)\<close> on a userid whose number is not
  an integer below \<open>2 ^ 53\<close>: the text written then is not determined here.
\<close>

definition setUser_command_string ::
  "string \<Rightarrow> string \<Rightarrow> string \<Rightarrow> string \<Rightarrow> int \<Rightarrow> string \<Rightarrow> (js_error + buffer) option" where
  "setUser_command_string uid userid name password role cardno =
     (if parseInt uid = Some 0
         \<or> (case parseInt uid of None \<Rightarrow> False | Some u \<Rightarrow> u > MAX_UID)
         \<or> length userid > MAX_USERID_LENGTH
         \<or> length name > MAX_NAME_LENGTH
         \<or> length password > MAX_PASSWORD_LENGTH
         \<or> length cardno > MAX_CARDNO_LENGTH
      then Some (Inl Invalid_input_parameters)
      else
        (case
           bindE (writeUInt16LE_num (alloc 72) (parseInt uid) 0) (\<lambda>b1.
           bindE (writeUInt16LE_num b1 (Some role) 2) (\<lambda>b2.
           let b3 = write_string b2 password 3 8;
               b4 = write_string b3 name 11 24
           in bindE (writeUInt16LE_num b4 (parseInt cardno) 35) (\<lambda>b5.
              writeUInt32LE b5 0 40)))
         of Inl e \<Rightarrow> Some (Inl e)
          | Inr b6 \<Rightarrow>
              if userid \<noteq> []
              then (case Number_str userid of
                      None \<Rightarrow> None
                    | Some v \<Rightarrow> Some (Inr (write_string b6 (toString9 v) 48 (72 - 48))))
              else Some (Inr (write_string b6 [] 48 (72 - 48)))))"

definition setUser ::
  "commands \<Rightarrow> ZKLibTCP \<Rightarrow> string \<Rightarrow> string \<Rightarrow> string \<Rightarrow> string \<Rightarrow> int \<Rightarrow> string \<Rightarrow> net_event
     \<Rightarrow> (buffer promise \<times> ZKLibTCP) option" where
  "setUser C st uid userid name password role cardno ev =
     (case setUser_command_string uid userid name password role cardno of
        None \<Rightarrow> None
      | Some (Inl e) \<Rightarrow> Some (Rejected (Failed_to_set_user e), st)
      | Some (Inr command_string) \<Rightarrow>
          Some (case executeCmd_tcp C st (CMD_USER_WRQ C) command_string ev of
                  (Rejected e, st') \<Rightarrow> (Rejected (Failed_to_set_user e), st')
                | (Resolved reply, st') \<Rightarrow> (Resolved reply, st')
                | (Pending, st') \<Rightarrow> (Pending, st')))"

section \<open>The client (ZKLib)\<close>

datatype ERROR_TYPES = ECONNRESET | ECONNREFUSED | EADDRINUSE | ETIMEDOUT | EINVALID

datatype connection = tcp | udp

text \<open>What a \<open>ZKError\<close> wraps: a code with a message, or whatever a callback threw.\<close>

datatype 'e IError = CodeMessage ERROR_TYPES string | Thrown 'e

datatype 'e ZKError = ZKError "'e IError" string string

record ZKLib =
  zklibTcp :: ZKLibTCP
  zklibUdp :: ZKLibUDP
  connectionType :: "connection option"
  ip :: string

text \<open>
  A callback runs on the client's state and returns, throws, or never settles; the
  \<open>functionWrapper\<close> passes the first and the last on and wraps what is thrown.
\<close>

datatype ('e, 'a) settled = Returns 'a | Throws 'e | Never

type_synonym ('e, 'a) callback = "ZKLib \<Rightarrow> ('e, 'a) settled \<times> ZKLib"

definition new_ZKLib :: "string \<Rightarrow> nat \<Rightarrow> nat \<Rightarrow> nat \<Rightarrow> ZKLib" where
  "new_ZKLib ip_arg port timeout inport =
     \<lparr>zklibTcp = new_ZKLibTCP ip_arg port timeout,
      zklibUdp = new_ZKLibUDP ip_arg port timeout inport,
      connectionType = None, ip = ip_arg\<rparr>"

definition createConnectionError :: "ZKLib \<Rightarrow> string \<Rightarrow> 'e ZKError" where
  "createConnectionError z connectionTypeMsg =
     ZKError (CodeMessage ECONNREFUSED ''Socket isn't connected !'') connectionTypeMsg (ip z)"

definition runCallback ::
  "ZKLib \<Rightarrow> ('e, 'a) callback \<Rightarrow> string \<Rightarrow> string option
     \<Rightarrow> ('e ZKError, 'a) settled \<times> ZKLib" where
  "runCallback z callback connectionTypeMsg command =
     (case callback z of
        (Returns v, z') \<Rightarrow> (Returns v, z')
      | (Throws err, z') \<Rightarrow>
          (Throws (ZKError (Thrown err)
                     (connectionTypeMsg @ '' ''
                        @ (case command of None \<Rightarrow> ''undefined'' | Some c \<Rightarrow> c))
                     (ip z')), z')
      | (Never, z') \<Rightarrow> (Never, z'))"

definition functionWrapper ::
  "ZKLib \<Rightarrow> ('e, 'a) callback \<Rightarrow> ('e, 'a) callback option \<Rightarrow> string option
     \<Rightarrow> ('e ZKError, 'a) settled \<times> ZKLib" where
  "functionWrapper z tcpCallback udpCallback command =
     (case connectionType z of
        Some tcp \<Rightarrow>
          if tcp_socket (zklibTcp z) = None
          then (Throws (createConnectionError z ''[TCP]''), z)
          else runCallback z tcpCallback ''[TCP]'' command
      | Some udp \<Rightarrow>
          if udp_socket (zklibUdp z) = None
          then (Throws (createConnectionError z ''[UDP]''), z)
          else (case udpCallback of
                  None \<Rightarrow>
                    (Throws (ZKError (CodeMessage EINVALID ''UDP callback not provided'')
                               ''[UDP]'' (ip z)), z)
                | Some callback \<Rightarrow> runCallback z callback ''[UDP]'' command)
      | None \<Rightarrow> (Throws (createConnectionError z []), z))"

text \<open>
  The public operations that go through \<open>functionWrapper\<close>, none of which passes a
  \<open>command\<close>.  The transports' methods are parameters: \<open>tcpOp\<close> and \<open>udpOp\<close> give, for each
  operation, the callback on the TCP and on the UDP object.
\<close>

datatype operation =
    getUsers | getTime | getSerialNumber | getDeviceVersion | getDeviceName | getPlatform
  | getOS | getWorkCode | getPIN | getFaceOn | getSSR | getFirmware | setUser_op
  | getAttendanceSize | getAttendances | getRealTimeLogs | disconnect | freeData
  | disableDevice | enableDevice | getInfo | getSocketStatus | clearAttendanceLog
  | executeCmd

definition hasUdpCallback :: "operation \<Rightarrow> bool" where
  "hasUdpCallback op =
     (op \<in> set [getUsers, getTime, getAttendances, getRealTimeLogs, disconnect, freeData,
                disableDevice, enableDevice, getInfo, getSocketStatus, clearAttendanceLog,
                executeCmd])"

definition call ::
  "(operation \<Rightarrow> ('e, 'a) callback) \<Rightarrow> (operation \<Rightarrow> ('e, 'a) callback) \<Rightarrow> operation \<Rightarrow> ZKLib
     \<Rightarrow> ('e ZKError, 'a) settled \<times> ZKLib" where
  "call tcpOp udpOp op z =
     functionWrapper z (tcpOp op) (if hasUdpCallback op then Some (udpOp op) else None) None"

section \<open>Notions of the specification\<close>

text \<open>
  The event discriminators as the specification words them: on TCP, strip the prefix if
  present, then compare the 16-bit words at offsets 0 and 4; on UDP, compare the command
  id of the 8-byte header.
\<close>

definition isEventFrame_tcp_spec :: "commands \<Rightarrow> buffer \<Rightarrow> bool" where
  "isEventFrame_tcp_spec C bytes =
     (let inner = (if 8 \<le> length bytes \<and> take 4 bytes = [0x50, 0x50, 0x82, 0x7d]
                   then drop 8 bytes else bytes)
      in readUInt16LE inner 0 = Inr (CMD_REG_EVENT C)
         \<and> readUInt16LE inner 4 = Inr (EF_ATTLOG C))"

definition isEventFrame_udp_spec :: "commands \<Rightarrow> buffer \<Rightarrow> bool" where
  "isEventFrame_udp_spec C bytes =
     (8 \<le> length bytes \<and> readUInt16LE bytes 0 = Inr (CMD_REG_EVENT C))"

text \<open>
  The states of a \<open>ZKLibTCP\<close> object that the modelled operations reach from a fresh one.
\<close>

inductive reachable_tcp :: "ZKLibTCP \<Rightarrow> bool" where
  fresh: "reachable_tcp (new_ZKLibTCP ip_arg port timeout)"
| event: "reachable_tcp st \<Longrightarrow> reachable_tcp (tcp_step st ev)"
| command: "reachable_tcp st \<Longrightarrow> reachable_tcp (snd (executeCmd_tcp C st c d ne))"
| chunk: "reachable_tcp st \<Longrightarrow> reachable_tcp (snd (sendChunkRequest_tcp C st start sz))"

text \<open>The two bytes of a 16-bit field and the four bytes of a 32-bit field, low byte first.\<close>

definition le16 :: "nat \<Rightarrow> buffer" where
  "le16 v = [of_nat (v mod 256), of_nat (v div 256)]"

definition le32 :: "nat \<Rightarrow> buffer" where
  "le32 v = [of_nat (v mod 256), of_nat (v div 256 mod 256), of_nat (v div 65536 mod 256),
             of_nat (v div 16777216)]"

text \<open>
  A frame carries a correct checksum, in the sense of the specification, when the checksum
  taken over the frame with bytes 2-3 zeroed is the value stored in bytes 2-3.
\<close>

definition checksumCorrect :: "buffer \<Rightarrow> bool" where
  "checksumCorrect frame =
     (case writeUInt16LE frame 0 2 of
        Inl e \<Rightarrow> False
      | Inr zeroed \<Rightarrow> readUInt16LE frame 2 = Inr (createCheckSum zeroed))"

text \<open>
  The frame as it was when the builders took its checksum: bytes 2-3 zero, and bytes 6-7
  holding the reply id that was passed in.
\<close>

definition summedFrame :: "buffer \<Rightarrow> nat \<Rightarrow> js_error + buffer" where
  "summedFrame frame r =
     bindE (writeUInt16LE frame 0 2) (\<lambda>zeroed. writeUInt16LE zeroed r 6)"

text \<open>
  The requests the specification expects of the chunked-receive loop for an announced size:
  a full-size request at every multiple of \<open>MAX_CHUNK\<close> below the size, then one request
  for the remainder.
\<close>

definition expectedRequests :: "nat \<Rightarrow> nat \<Rightarrow> (nat \<times> nat) list" where
  "expectedRequests MAX_CHUNK n =
     map (\<lambda>i. (i * MAX_CHUNK, MAX_CHUNK)) [0..<n div MAX_CHUNK]
     @ [(n div MAX_CHUNK * MAX_CHUNK, n mod MAX_CHUNK)]"

text \<open>
  What a device reads in a UDP-shaped request frame: the command id, and the two 32-bit
  words of an eight-byte body.
\<close>

definition decodeChunkRequest :: "buffer \<Rightarrow> (js_error + nat) \<times> (js_error + nat) \<times> (js_error + nat)" where
  "decodeChunkRequest frame =
     (readUInt16LE frame 0, readUInt32LE frame 8, readUInt32LE frame 12)"

text \<open>An opcode table for the examples; the theorems hold for every table.\<close>

definition example_commands :: commands where
  "example_commands =
     \<lparr>CMD_CONNECT = 1000, CMD_EXIT = 1001, CMD_REG_EVENT = 500, EF_ATTLOG = 1,
      CMD_DATA = 1501, CMD_ACK_OK = 2000, CMD_PREPARE_DATA = 1500, CMD_DATA_WRRQ = 1503,
      CMD_DATA_RDY = 1504, CMD_FREE_DATA = 1502, CMD_USER_WRQ = 8\<rparr>"

section \<open>Verification\<close>

subsection \<open>Packed timestamps\<close>

text \<open>
  C5, as stated: the compact decoder applied to 347241615 yields year 2011, month 0, day 18,
  hour 14, minute 15, second 15.  The decoder does not: the fields it computes differ.
\<close>

theorem parseTimeToDate_347241615_not_2011:
  "parseTimeToDate 347241615
     \<noteq> \<lparr>year = 2011, month = 0, day = 18, hour = 14, minute = 15, second = 15\<rparr>"
  unfolding parseTimeToDate_def Let_def by simp

text \<open>
  C5, amended: the compact decoder applied to 347241615 yields year 2010, month 9 (October,
  months counted from 0), day 21, hour 0, minute 0, second 15.
\<close>

theorem parseTimeToDate_347241615:
  "parseTimeToDate 347241615
     = \<lparr>year = 2010, month = 9, day = 21, hour = 0, minute = 0, second = 15\<rparr>"
  unfolding parseTimeToDate_def Let_def by simp

subsection \<open>Event discrimination\<close>

lemma removeTcpHeader_cases:
  "removeTcpHeader b =
     (if 8 \<le> length b \<and> take 4 b = [0x50, 0x50, 0x82, 0x7d] then drop 8 b else b)"
  by (auto simp: removeTcpHeader_def TCP_HEADER_SIGNATURE_def)

lemma checkNotEventTCP_spec: "checkNotEventTCP C data = isEventFrame_tcp_spec C data"
  unfolding checkNotEventTCP_def isEventFrame_tcp_spec_def removeTcpHeader_cases [symmetric] Let_def
  by (auto simp: bindE_def readUInt16LE_def split: sum.splits)

lemma checkNotEventUDP_cases:
  "checkNotEventUDP C data =
     (if length data < 8 then Inl ERR_OUT_OF_RANGE
      else Inr (readUInt16LE data 0 = Inr (CMD_REG_EVENT C)))"
  by (auto simp: checkNotEventUDP_def decodeUDPHeader_def bindE_def readUInt16LE_def
      split: sum.splits)

text \<open>
  C7: the TCP discriminator returns true exactly when, after the prefix has been stripped
  if present, the 16-bit word at offset 0 is \<open>REG_EVENT\<close> and the one at offset 4 is
  \<open>EF_ATTLOG\<close>; the UDP discriminator returns true exactly when the datagram has an 8-byte
  header whose command id is \<open>REG_EVENT\<close>.  (On a datagram shorter than 8 bytes the UDP
  discriminator returns nothing: the range error of the decoder escapes.)
\<close>

theorem event_discriminators:
  "checkNotEventTCP C data = isEventFrame_tcp_spec C data
   \<and> (checkNotEventUDP C data = Inr True) = isEventFrame_udp_spec C data
   \<and> (checkNotEventUDP C data = Inl ERR_OUT_OF_RANGE) = (length data < 8)"
  by (auto simp: checkNotEventTCP_spec checkNotEventUDP_cases isEventFrame_udp_spec_def)

subsection \<open>The client before a connection\<close>

text \<open>
  C9: while \<open>connectionType\<close> is \<open>null\<close>, every operation of the client that goes through
  \<open>functionWrapper\<close> throws the \<open>ZKError\<close> with code \<open>ECONNREFUSED\<close>, message
  \<open>Socket isn't connected !\<close>, an empty command and the client's address; no callback
  runs, so the state, with both transports and what they have written, is unchanged.
\<close>

theorem call_unconnected:
  "connectionType z = None \<Longrightarrow>
   call tcpOp udpOp op z
     = (Throws (ZKError (CodeMessage ECONNREFUSED ''Socket isn't connected !'') [] (ip z)), z)"
  by (simp add: call_def functionWrapper_def createConnectionError_def)

theorem call_unconnected_witness:
  "connectionType (new_ZKLib ''10.20.0.7'' 4370 10000 4000) = None
   \<and> call (\<lambda>op z. (Returns (), z\<lparr>ip := ''changed''\<rparr>)) (\<lambda>op z. (Throws (), z)) getTime
         (new_ZKLib ''10.20.0.7'' 4370 10000 4000)
       = (Throws (ZKError (CodeMessage ECONNREFUSED ''Socket isn't connected !'') []
                    ''10.20.0.7''),
          new_ZKLib ''10.20.0.7'' 4370 10000 4000)"
proof -
  have h: "connectionType (new_ZKLib ''10.20.0.7'' 4370 10000 4000) = None"
    by (simp add: new_ZKLib_def)
  have i: "ip (new_ZKLib ''10.20.0.7'' 4370 10000 4000) = ''10.20.0.7''"
    by (simp add: new_ZKLib_def)
  show ?thesis
    using call_unconnected [OF h, of "\<lambda>op z. (Returns (), z\<lparr>ip := ''changed''\<rparr>)"
        "\<lambda>op z. (Throws (), z)" getTime] h
    by (simp only: i simp_thms)
qed

subsection \<open>Reassembly of a chunked read over UDP\<close>

lemma decodeUDPHeader_Inr:
  "decodeUDPHeader b = Inr h \<Longrightarrow> 8 \<le> length b \<and> readUInt16LE b 0 = Inr (commandId h)"
  by (auto simp: decodeUDPHeader_def bindE_def readUInt16LE_def split: sum.splits if_splits)

lemma handleOnData_udp_ack:
  assumes "outcome p = Pending" and "decodeUDPHeader reply = Inr h"
    and "commandId h = CMD_ACK_OK C" and "CMD_ACK_OK C \<noteq> CMD_REG_EVENT C"
    and "CMD_ACK_OK C \<noteq> CMD_DATA C"
  shows "handleOnData_udp C sz p reply =
     Inr (p\<lparr>timer := ListenerTimer,
            outcome := (if length (totalBuffer p) = sz
                        then Resolved (totalBuffer p, None) else Pending)\<rparr>)"
  using assms decodeUDPHeader_Inr [OF assms(2)]
  by (simp add: handleOnData_udp_def checkNotEventUDP_cases bindE_def resolve_def Let_def)

lemma handleOnData_udp_success:
  assumes "outcome p = Pending" and "handleOnData_udp C sz p reply = Inr p'"
    and "outcome p' = Resolved (d, None)"
  shows "length (totalBuffer p) = sz \<and> d = totalBuffer p
     \<and> (\<exists>h. decodeUDPHeader reply = Inr h \<and> commandId h = CMD_ACK_OK C)"
  using assms
  by (auto simp: handleOnData_udp_def checkNotEventUDP_cases bindE_def resolve_def Let_def
      split: if_splits sum.splits)

lemma timerExpires_pending:
  "outcome p = Pending \<Longrightarrow>
   timerExpires sz p
     = p\<lparr>outcome := Resolved (totalBuffer p,
            Some (case timer p of FirstTimer \<Rightarrow> TIMEOUT_WHEN_RECEIVING_PACKET
                  | ListenerTimer \<Rightarrow> TIMEOUT_REMAIN sz (length (totalBuffer p))))\<rparr>"
  by (simp add: timerExpires_def resolve_def)

text \<open>
  C3: let the promise of \<open>handlePreparedData\<close> be pending, with announced size \<open>sz\<close>.
  On a frame whose command id is \<open>ACK_OK\<close> (an opcode other than \<open>REG_EVENT\<close> and \<open>DATA\<close>)
  the listener resolves the promise with the accumulated buffer and no error if the
  buffer's length is \<open>sz\<close>, and leaves it pending otherwise.  No frame makes it resolve
  without an error in any other way.  When the timer expires, the promise is resolved, not
  rejected, with the accumulated buffer and a timeout error.
\<close>

theorem udp_reassembly_resolution:
  assumes "outcome p = Pending"
  shows "(decodeUDPHeader reply = Inr h \<and> commandId h = CMD_ACK_OK C
            \<and> CMD_ACK_OK C \<noteq> CMD_REG_EVENT C \<and> CMD_ACK_OK C \<noteq> CMD_DATA C
          \<longrightarrow> (\<exists>p'. handleOnData_udp C sz p reply = Inr p'
                 \<and> totalBuffer p' = totalBuffer p
                 \<and> outcome p' = (if length (totalBuffer p) = sz
                                 then Resolved (totalBuffer p, None) else Pending)))
       \<and> (handleOnData_udp C sz p reply = Inr q \<and> outcome q = Resolved (d, None)
          \<longrightarrow> length (totalBuffer p) = sz \<and> d = totalBuffer p
              \<and> (\<exists>h'. decodeUDPHeader reply = Inr h' \<and> commandId h' = CMD_ACK_OK C))
       \<and> (\<exists>e. outcome (timerExpires sz p) = Resolved (totalBuffer p, Some e)
              \<and> (e = TIMEOUT_WHEN_RECEIVING_PACKET
                  \<or> e = TIMEOUT_REMAIN sz (length (totalBuffer p))))"
proof (intro conjI impI)
  assume "decodeUDPHeader reply = Inr h \<and> commandId h = CMD_ACK_OK C
            \<and> CMD_ACK_OK C \<noteq> CMD_REG_EVENT C \<and> CMD_ACK_OK C \<noteq> CMD_DATA C"
  then show "\<exists>p'. handleOnData_udp C sz p reply = Inr p'
                 \<and> totalBuffer p' = totalBuffer p
                 \<and> outcome p' = (if length (totalBuffer p) = sz
                                 then Resolved (totalBuffer p, None) else Pending)"
    using handleOnData_udp_ack [OF assms, of reply h C sz] by simp
next
  assume "handleOnData_udp C sz p reply = Inr q \<and> outcome q = Resolved (d, None)"
  then show "length (totalBuffer p) = sz" "d = totalBuffer p"
    "\<exists>h'. decodeUDPHeader reply = Inr h' \<and> commandId h' = CMD_ACK_OK C"
    using handleOnData_udp_success [OF assms, of C sz reply q d] by auto
next
  show "\<exists>e. outcome (timerExpires sz p) = Resolved (totalBuffer p, Some e)
              \<and> (e = TIMEOUT_WHEN_RECEIVING_PACKET
                  \<or> e = TIMEOUT_REMAIN sz (length (totalBuffer p)))"
    using timerExpires_pending [OF assms, of sz] by (cases "timer p") simp_all
qed

text \<open>
  An instance: four bytes have been accumulated of four announced, and the frame
  \<open>d0 07 00 00 00 00 00 00\<close> (command id 2000) arrives.
\<close>

theorem udp_reassembly_resolution_witness:
  "outcome (handlePreparedData_init\<lparr>totalBuffer := [1, 2, 3, 4]\<rparr>) = Pending
   \<and> decodeUDPHeader [0xd0, 0x07, 0, 0, 0, 0, 0, 0]
       = Inr \<lparr>commandId = 2000, checkSum = 0, sessionId = 0, replyId = 0\<rparr>
   \<and> (\<exists>p'. handleOnData_udp example_commands 4
              (handlePreparedData_init\<lparr>totalBuffer := [1, 2, 3, 4]\<rparr>)
              [0xd0, 0x07, 0, 0, 0, 0, 0, 0] = Inr p'
          \<and> totalBuffer p' = [1, 2, 3, 4]
          \<and> outcome p' = Resolved ([1, 2, 3, 4], None))
   \<and> outcome (timerExpires 4 (handlePreparedData_init\<lparr>totalBuffer := [1, 2, 3, 4]\<rparr>))
       = Resolved ([1, 2, 3, 4], Some TIMEOUT_WHEN_RECEIVING_PACKET)"
proof -
  let ?p = "handlePreparedData_init\<lparr>totalBuffer := [1, 2, 3, 4]\<rparr>"
  let ?reply = "[0xd0, 0x07, 0, 0, 0, 0, 0, 0] :: buffer"
  let ?h = "\<lparr>commandId = 2000, checkSum = 0, sessionId = 0, replyId = 0\<rparr>"
  have pending: "outcome ?p = Pending"
    by (simp add: handlePreparedData_init_def)
  have header: "decodeUDPHeader ?reply = Inr ?h"
    by (simp add: decodeUDPHeader_def bindE_def readUInt16LE_def)
  have ack: "commandId ?h = CMD_ACK_OK example_commands
      \<and> CMD_ACK_OK example_commands \<noteq> CMD_REG_EVENT example_commands
      \<and> CMD_ACK_OK example_commands \<noteq> CMD_DATA example_commands"
    by (simp add: example_commands_def)
  have total: "totalBuffer ?p = [1, 2, 3, 4]" and first: "timer ?p = FirstTimer"
    by (simp_all add: handlePreparedData_init_def)
  from udp_reassembly_resolution [OF pending, of ?reply ?h example_commands 4]
  have "(\<exists>p'. handleOnData_udp example_commands 4 ?p ?reply = Inr p'
            \<and> totalBuffer p' = [1, 2, 3, 4]
            \<and> outcome p' = Resolved ([1, 2, 3, 4], None))"
    using header ack total by simp
  moreover have "outcome (timerExpires 4 ?p)
      = Resolved ([1, 2, 3, 4], Some TIMEOUT_WHEN_RECEIVING_PACKET)"
    by (simp add: timerExpires_def resolve_def pending total first)
  ultimately show ?thesis using pending header by simp
qed


subsection \<open>Socket status\<close>

lemma tcp_step_status:
  "tcp_socketStatus st \<in> {''Closed'', ''Open'', ''Error''} \<Longrightarrow>
   tcp_socketStatus (tcp_step st ev) \<in> {''Closed'', ''Open'', ''Error''}"
  by (cases ev) (auto simp: updateSocket_def)

lemma executeCmd_tcp_status:
  "tcp_socketStatus (snd (executeCmd_tcp C st c d ne)) = tcp_socketStatus st"
  by (auto simp: executeCmd_tcp_def writeMessage_tcp_def Let_def
      split: sum.splits option.splits net_event.splits if_splits)

lemma sendChunkRequest_tcp_status:
  "tcp_socketStatus (snd (sendChunkRequest_tcp C st start sz)) = tcp_socketStatus st"
  by (auto simp: sendChunkRequest_tcp_def Let_def split: sum.splits option.splits)

lemma reachable_tcp_status:
  "reachable_tcp st \<Longrightarrow> tcp_socketStatus st \<in> {''Closed'', ''Open'', ''Error''}"
proof (induction rule: reachable_tcp.induct)
  case (fresh ip_arg port timeout)
  show ?case by (simp add: new_ZKLibTCP_def)
next
  case (event st ev)
  from event.IH show ?case by (rule tcp_step_status)
next
  case (command st C c d ne)
  then show ?case by (simp only: executeCmd_tcp_status)
next
  case (chunk st C start sz)
  then show ?case by (simp only: sendChunkRequest_tcp_status)
qed

lemma reachable_tcp_run: "reachable_tcp st \<Longrightarrow> reachable_tcp (tcp_run st evs)"
  unfolding tcp_run_def
  by (induction evs arbitrary: st) (auto intro: reachable_tcp.event)

text \<open>The current socket of a reachable state is an object of the store.\<close>

lemma tcp_step_socket:
  "(\<forall>a. tcp_socket st = Some a \<longrightarrow> a < length (tcp_sockets st)) \<Longrightarrow>
   tcp_socket (tcp_step st ev) = Some b \<Longrightarrow> b < length (tcp_sockets (tcp_step st ev))"
  by (cases ev) (auto simp: updateSocket_def split: if_splits)

lemma executeCmd_tcp_sockets:
  "tcp_socket (snd (executeCmd_tcp C st c d ne)) = tcp_socket st
   \<and> tcp_sockets (snd (executeCmd_tcp C st c d ne)) = tcp_sockets st"
  by (auto simp: executeCmd_tcp_def writeMessage_tcp_def Let_def
      split: sum.splits option.splits net_event.splits if_splits)

lemma sendChunkRequest_tcp_sockets:
  "tcp_socket (snd (sendChunkRequest_tcp C st start sz)) = tcp_socket st
   \<and> tcp_sockets (snd (sendChunkRequest_tcp C st start sz)) = tcp_sockets st"
  by (auto simp: sendChunkRequest_tcp_def Let_def split: sum.splits option.splits)

lemma reachable_tcp_socket:
  "reachable_tcp st \<Longrightarrow> tcp_socket st = Some a \<Longrightarrow> a < length (tcp_sockets st)"
proof (induction arbitrary: a rule: reachable_tcp.induct)
  case (fresh ip_arg port timeout)
  then show ?case by (simp add: new_ZKLibTCP_def)
next
  case (event st ev)
  from event.IH have "\<forall>a. tcp_socket st = Some a \<longrightarrow> a < length (tcp_sockets st)" by blast
  from tcp_step_socket [OF this event.prems] show ?case .
next
  case (command st C c d ne)
  then show ?case by (simp add: executeCmd_tcp_sockets)
next
  case (chunk st C start sz)
  then show ?case by (simp add: sendChunkRequest_tcp_sockets)
qed

lemma getSocketStatus_tcp_cases:
  "getSocketStatus_tcp st = ''No socket instance'' \<or> getSocketStatus_tcp st = ''Closed''
     \<or> getSocketStatus_tcp st = tcp_socketStatus st"
  by (simp add: getSocketStatus_tcp_def split: option.splits)

lemma getSocketStatus_udp_cases:
  "getSocketStatus_udp u = ''No socket instance'' \<or> getSocketStatus_udp u = ''Unbound''
     \<or> (\<exists>port. getSocketStatus_udp u = ''Bound to port '' @ toStringRadix 10 port)"
  by (auto simp: getSocketStatus_udp_def split: option.splits)

lemmas tcp_run_defs = tcp_run_def new_ZKLibTCP_def updateSocket_def

text \<open>
  When a connection fails, the runtime destroys the socket before it emits \<open>error\<close>, so
  \<open>getSocketStatus\<close> called from \<open>cbError\<close> on that socket returns \<open>Closed\<close>, and after the
  \<open>close\<close> event that follows it returns \<open>No socket instance\<close>.
\<close>

lemma getSocketStatus_tcp_after_failure:
  "getSocketStatus_tcp (tcp_run (new_ZKLibTCP ''10.20.0.7'' 4370 10000)
       [CreateSocket, Destroy 0, EmitError 0]) = ''Closed''"
  "getSocketStatus_tcp (tcp_run (new_ZKLibTCP ''10.20.0.7'' 4370 10000)
       [CreateSocket, Destroy 0, EmitError 0, EmitClose 0]) = ''No socket instance''"
  by (simp_all add: tcp_run_defs getSocketStatus_tcp_def)

text \<open>
  C8, as stated: on the TCP transport \<open>getSocketStatus\<close> returns one of \<open>No socket instance\<close>,
  \<open>Closed\<close> and \<open>Open\<close> in every reachable state.  Let \<open>createSocket\<close> be called with a
  \<open>cbError\<close> that calls \<open>createSocket\<close> again, and let the connection fail: the runtime
  destroys the first socket and emits \<open>error\<close> on it, the error listener stores \<open>Error\<close> in
  \<open>socketStatus\<close> and calls \<open>cbError\<close>, and \<open>createSocket\<close> makes a second socket the current
  one.  That socket is not destroyed, so \<open>getSocketStatus\<close>, called next in \<open>cbError\<close>,
  returns \<open>Error\<close>.
\<close>

theorem getSocketStatus_tcp_Error:
  "reachable_tcp (tcp_run (new_ZKLibTCP ''10.20.0.7'' 4370 10000)
       [CreateSocket, Destroy 0, EmitError 0, CreateSocket])
   \<and> getSocketStatus_tcp (tcp_run (new_ZKLibTCP ''10.20.0.7'' 4370 10000)
       [CreateSocket, Destroy 0, EmitError 0, CreateSocket]) = ''Error''
   \<and> ''Error'' \<notin> {''No socket instance'', ''Closed'', ''Open''}"
  using reachable_tcp_run [OF reachable_tcp.fresh, of "''10.20.0.7''" 4370 10000
      "[CreateSocket, Destroy 0, EmitError 0, CreateSocket]"]
  by (simp add: tcp_run_defs getSocketStatus_tcp_def)

text \<open>
  C8, amended: on the TCP transport \<open>getSocketStatus\<close> returns, in every reachable state,
  one of the four strings \<open>No socket instance\<close>, \<open>Closed\<close>, \<open>Open\<close> and \<open>Error\<close>; on the UDP
  transport it returns \<open>No socket instance\<close>, \<open>Unbound\<close>, or \<open>Bound to port N\<close> with \<open>N\<close> in
  decimal.
\<close>

theorem getSocketStatus_values:
  "reachable_tcp st \<Longrightarrow>
     getSocketStatus_tcp st \<in> {''No socket instance'', ''Closed'', ''Open'', ''Error''}
     \<and> (getSocketStatus_udp u = ''No socket instance'' \<or> getSocketStatus_udp u = ''Unbound''
        \<or> (\<exists>port. getSocketStatus_udp u = ''Bound to port '' @ toStringRadix 10 port))"
  using reachable_tcp_status [of st] getSocketStatus_tcp_cases [of st]
    getSocketStatus_udp_cases [of u]
  by auto

theorem getSocketStatus_values_witness:
  "reachable_tcp (tcp_run (new_ZKLibTCP ''10.20.0.7'' 4370 10000) [CreateSocket, EmitConnect 0])
   \<and> getSocketStatus_tcp
        (tcp_run (new_ZKLibTCP ''10.20.0.7'' 4370 10000) [CreateSocket, EmitConnect 0])
       \<in> {''No socket instance'', ''Closed'', ''Open'', ''Error''}
   \<and> getSocketStatus_tcp
        (tcp_run (new_ZKLibTCP ''10.20.0.7'' 4370 10000) [CreateSocket, EmitConnect 0]) = ''Open''
   \<and> getSocketStatus_udp
        (udp_run (new_ZKLibUDP ''10.20.0.7'' 4370 10000 4000)
           [UdpCreateSocket, UdpListening 4000]) = ''Bound to port 4000''"
proof -
  let ?st = "tcp_run (new_ZKLibTCP ''10.20.0.7'' 4370 10000) [CreateSocket, EmitConnect 0]"
  let ?u = "udp_run (new_ZKLibUDP ''10.20.0.7'' 4370 10000 4000)
              [UdpCreateSocket, UdpListening 4000]"
  have r: "reachable_tcp ?st"
    by (rule reachable_tcp_run [OF reachable_tcp.fresh])
  have "getSocketStatus_tcp ?st \<in> {''No socket instance'', ''Closed'', ''Open'', ''Error''}"
    using getSocketStatus_values [OF r, of ?u] by (rule conjunct1)
  moreover have "getSocketStatus_tcp ?st = ''Open''"
    by (simp add: tcp_run_defs getSocketStatus_tcp_def)
  moreover have "toStringRadix 10 4000 = ''4000''"
    by (simp add: toStringRadix.simps digitChar_def)
  then have "getSocketStatus_udp ?u = ''Bound to port 4000''"
    by (simp add: udp_run_def new_ZKLibUDP_def getSocketStatus_udp_def)
  ultimately show ?thesis using r by simp
qed

subsection \<open>Frames\<close>

lemma alloc8: "alloc (8 + n) = [0, 0, 0, 0, 0, 0, 0, 0] @ replicate n 0"
  by (simp add: alloc_def replicate_add numeral_eq_Suc)

lemma createCheckSum_fits [simp]: "\<not> 65535 < createCheckSum b"
  by (simp add: createCheckSum_def USHRT_MAX_def)

lemma createCheckSum_le: "createCheckSum b \<le> 65535"
  by (simp add: createCheckSum_def USHRT_MAX_def)

lemma mod_USHRT_MAX_fits [simp]: "\<not> 65535 < n mod USHRT_MAX"
  by (simp add: USHRT_MAX_def not_less less_imp_le) 

lemma unat_byte: "n < 256 \<Longrightarrow> unat (of_nat n :: byte) = n"
  by (simp add: unat_of_nat)

lemma read_le16 [simp]:
  "v \<le> 65535 \<Longrightarrow> unat (of_nat (v mod 256) :: byte) + 256 * unat (of_nat (v div 256) :: byte) = v"
  by (simp add: unat_byte)

lemma createUDPHeader_bytes:
  assumes "c \<le> 65535" "s \<le> 65535" "r \<le> 65535"
  shows "createUDPHeader c s r d =
     Inr (le16 c @ le16 (createCheckSum (le16 c @ [0, 0] @ le16 s @ le16 r @ d)) @ le16 s
          @ le16 ((r + 1) mod USHRT_MAX) @ d)"
  using assms
  by (simp add: createUDPHeader_def alloc8 bindE_def writeUInt16LE_def copy_def le16_def Let_def)

lemma createUDPHeader_Inr:
  "createUDPHeader c s r d = Inr f \<Longrightarrow> c \<le> 65535 \<and> s \<le> 65535 \<and> r \<le> 65535"
  by (auto simp: createUDPHeader_def alloc8 bindE_def writeUInt16LE_def Let_def split: sum.splits if_splits)

lemma createTCPHeader_udp:
  "createTCPHeader c s r d =
     bindE (createUDPHeader c s r d) (\<lambda>buf.
     bindE (writeUInt16LE prefixBuf (length buf) 4) (\<lambda>prefix. Inr (prefix @ buf)))"
  by (simp add: createTCPHeader_def createUDPHeader_def bindE_def Let_def split: sum.splits)

lemma createUDPHeader_length: "createUDPHeader c s r d = Inr f \<Longrightarrow> length f = 8 + length d"
  using createUDPHeader_Inr[of c s r d f] createUDPHeader_bytes[of c s r d]
  by (auto simp: le16_def)

lemma createTCPHeader_Inr:
  "createTCPHeader c s r d = Inr f \<Longrightarrow>
     createUDPHeader c s r d = Inr (drop 8 f) \<and> length d \<le> 65527
     \<and> take 8 f = [0x50, 0x50, 0x82, 0x7d] @ le16 (8 + length d) @ [0, 0]"
  by (auto simp: createTCPHeader_udp bindE_def writeUInt16LE_def prefixBuf_def le16_def
      dest: createUDPHeader_length split: sum.splits if_splits)

lemma createTCPHeader_bytes:
  assumes "c \<le> 65535" "s \<le> 65535" "r \<le> 65535" "length d \<le> 65527"
  shows "\<exists>f. createUDPHeader c s r d = Inr f
     \<and> createTCPHeader c s r d = Inr ([0x50, 0x50, 0x82, 0x7d] @ le16 (8 + length d) @ [0, 0] @ f)"
  using assms createUDPHeader_bytes[OF assms(1-3), of d]
  by (simp add: createTCPHeader_udp bindE_def writeUInt16LE_def prefixBuf_def le16_def)

lemma frame_checksum:
  assumes "c \<le> 65535" "s \<le> 65535" "r \<le> 65535" and "createUDPHeader c s r d = Inr f"
  shows "\<exists>g. summedFrame f r = Inr g \<and> readUInt16LE f 2 = Inr (createCheckSum g)"
proof -
  let ?g = "le16 c @ [0, 0] @ le16 s @ le16 r @ d"
  have f: "f = le16 c @ le16 (createCheckSum ?g) @ le16 s @ le16 ((r + 1) mod USHRT_MAX) @ d"
    using createUDPHeader_bytes[OF assms(1-3), of d] assms(4) by simp
  have "summedFrame f r = Inr ?g"
    using assms(3) by (simp add: f summedFrame_def bindE_def writeUInt16LE_def le16_def)
  moreover have "readUInt16LE f 2 = Inr (createCheckSum ?g)"
    using read_le16 [OF createCheckSum_le, of ?g] by (simp add: f readUInt16LE_def le16_def)
  ultimately show ?thesis by simp
qed

lemma frame_replyId:
  assumes "createUDPHeader c s r d = Inr f"
  shows "readUInt16LE f 6 = Inr ((r + 1) mod USHRT_MAX) \<and> readUInt16LE f 0 = Inr c \<and> drop 8 f = d"
proof -
  have b: "c \<le> 65535" "s \<le> 65535" "r \<le> 65535"
    using createUDPHeader_Inr[OF assms] by simp_all
  have f: "f = le16 c @ le16 (createCheckSum (le16 c @ [0, 0] @ le16 s @ le16 r @ d)) @ le16 s @ le16 ((r + 1) mod USHRT_MAX) @ d"
    using createUDPHeader_bytes[OF b, of d] assms by simp
  have m: "(r + 1) mod USHRT_MAX \<le> 65535" by (simp add: USHRT_MAX_def less_imp_le)
  show ?thesis
    using b(1) m by (simp add: f readUInt16LE_def le16_def)
qed

lemma createCheckSum_connect: "createCheckSum [0xE8, 0x03, 0, 0, 0, 0, 0, 0] = 64534"
  by (simp add: createCheckSum_def checkSumLoop.simps USHRT_MAX_def)

lemma createCheckSum_connect_restamped: "createCheckSum [0xE8, 0x03, 0, 0, 0, 0, 1, 0] = 64533"
  by (simp add: createCheckSum_def checkSumLoop.simps USHRT_MAX_def)

lemma createUDPHeader_connect:
  "createUDPHeader 1000 0 0 [] = Inr [0xE8, 0x03, 0x16, 0xFC, 0, 0, 1, 0]"
  by (simp add: createUDPHeader_bytes le16_def createCheckSum_connect USHRT_MAX_def)

lemma createTCPHeader_connect:
  "createTCPHeader 1000 0 0 []
     = Inr [0x50, 0x50, 0x82, 0x7d, 8, 0, 0, 0, 0xE8, 0x03, 0x16, 0xFC, 0, 0, 1, 0]"
  by (simp add: createTCPHeader_udp createUDPHeader_connect bindE_def writeUInt16LE_def
      prefixBuf_def)

text \<open>
  C1, as stated: recomputing the checksum over the emitted frame with its checksum field
  zeroed yields the value stored in bytes 2-3.  For \<open>command = 1000\<close>, session id 0, reply
  id 0 and an empty body the builders store 64534 (\<open>16 fc\<close>), and the checksum of the
  emitted frame with that field zeroed is 64533: the reply-id field was stamped with 1
  after the checksum had been taken.
\<close>

theorem frame_checksum_not_recomputed:
  "createUDPHeader 1000 0 0 [] = Inr [0xE8, 0x03, 0x16, 0xFC, 0, 0, 1, 0]
   \<and> createTCPHeader 1000 0 0 []
       = Inr ([0x50, 0x50, 0x82, 0x7d, 8, 0, 0, 0] @ [0xE8, 0x03, 0x16, 0xFC, 0, 0, 1, 0])
   \<and> \<not> checksumCorrect [0xE8, 0x03, 0x16, 0xFC, 0, 0, 1, 0]"
proof -
  have "\<not> checksumCorrect [0xE8, 0x03, 0x16, 0xFC, 0, 0, 1, 0]"
    by (simp add: checksumCorrect_def writeUInt16LE_def readUInt16LE_def
        createCheckSum_connect_restamped)
  then show ?thesis
    by (simp add: createUDPHeader_connect createTCPHeader_connect)
qed

text \<open>
  C1, amended: for every command, session id and reply id that fit 16 bits and every body
  (of at most 65527 bytes for \<open>createTCPHeader\<close>), the builders emit a frame, and the value
  stored in bytes 2-3 of the frame (of the inner frame, for \<open>createTCPHeader\<close>) is the
  checksum of that frame with bytes 2-3 zeroed and bytes 6-7 holding the reply id that was
  passed in, which is the frame as it was before the reply-id field was stamped again.
\<close>

theorem frame_checksum_before_restamp:
  assumes "c \<le> 65535" "s \<le> 65535" "r \<le> 65535"
  shows "(\<exists>f g. createUDPHeader c s r d = Inr f \<and> summedFrame f r = Inr g
            \<and> readUInt16LE f 2 = Inr (createCheckSum g))
       \<and> (length d \<le> 65527 \<longrightarrow>
           (\<exists>f g. createTCPHeader c s r d = Inr f \<and> summedFrame (drop 8 f) r = Inr g
              \<and> readUInt16LE (drop 8 f) 2 = Inr (createCheckSum g)))"
proof (intro conjI impI)
  obtain f where f: "createUDPHeader c s r d = Inr f"
    using createUDPHeader_bytes[OF assms, of d] by blast
  from frame_checksum[OF assms f] f
  show "\<exists>f g. createUDPHeader c s r d = Inr f \<and> summedFrame f r = Inr g
            \<and> readUInt16LE f 2 = Inr (createCheckSum g)" by blast
  assume "length d \<le> 65527"
  from createTCPHeader_bytes[OF assms this] f
  have "createTCPHeader c s r d = Inr ([0x50, 0x50, 0x82, 0x7d] @ le16 (8 + length d) @ [0, 0] @ f)"
    by simp
  moreover have "drop 8 ([0x50, 0x50, 0x82, 0x7d] @ le16 (8 + length d) @ [0, 0] @ f) = f"
    by (simp add: le16_def)
  ultimately show "\<exists>f g. createTCPHeader c s r d = Inr f \<and> summedFrame (drop 8 f) r = Inr g
              \<and> readUInt16LE (drop 8 f) 2 = Inr (createCheckSum g)"
    using frame_checksum[OF assms f] by (metis)
qed

theorem frame_checksum_before_restamp_witness:
  "createUDPHeader 1000 0 0 [] = Inr [0xE8, 0x03, 0x16, 0xFC, 0, 0, 1, 0]
   \<and> summedFrame [0xE8, 0x03, 0x16, 0xFC, 0, 0, 1, 0] 0 = Inr [0xE8, 0x03, 0, 0, 0, 0, 0, 0]
   \<and> readUInt16LE [0xE8, 0x03, 0x16, 0xFC, 0, 0, 1, 0] 2
       = Inr (createCheckSum [0xE8, 0x03, 0, 0, 0, 0, 0, 0])
   \<and> (\<exists>f g. createTCPHeader 1000 0 0 [] = Inr f \<and> summedFrame (drop 8 f) 0 = Inr g
          \<and> readUInt16LE (drop 8 f) 2 = Inr (createCheckSum g))"
proof -
  have s: "summedFrame [0xE8, 0x03, 0x16, 0xFC, 0, 0, 1, 0] 0 = Inr [0xE8, 0x03, 0, 0, 0, 0, 0, 0]"
    by (simp add: summedFrame_def bindE_def writeUInt16LE_def)
  from frame_checksum_before_restamp [of 1000 0 0 "[]"]
  have "(\<exists>f g. createUDPHeader 1000 0 0 [] = Inr f \<and> summedFrame f 0 = Inr g
            \<and> readUInt16LE f 2 = Inr (createCheckSum g))
       \<and> (\<exists>f g. createTCPHeader 1000 0 0 [] = Inr f \<and> summedFrame (drop 8 f) 0 = Inr g
              \<and> readUInt16LE (drop 8 f) 2 = Inr (createCheckSum g))"
    by simp
  then show ?thesis
    by (simp add: createUDPHeader_connect s)
qed

subsection \<open>The reply id\<close>

lemma createTCPHeader_replyId:
  assumes "createTCPHeader c s r d = Inr f"
  shows "readUInt16LE (drop 8 f) 6 = Inr ((r + 1) mod USHRT_MAX)"
  using createTCPHeader_Inr[OF assms] frame_replyId[of c s r d "drop 8 f"] by simp

lemma createTCPHeader_range:
  "65535 < c \<or> 65535 < s \<or> 65535 < r \<Longrightarrow> createTCPHeader c s r d = Inl ERR_OUT_OF_RANGE"
  by (auto simp: createTCPHeader_def alloc8 bindE_def writeUInt16LE_def)

lemma createUDPHeader_range:
  "65535 < c \<or> 65535 < s \<or> 65535 < r \<Longrightarrow> createUDPHeader c s r d = Inl ERR_OUT_OF_RANGE"
  by (auto simp: createUDPHeader_def alloc8 bindE_def writeUInt16LE_def)

lemma executeCmd_tcp_replyId:
  "tcp_replyId (snd (executeCmd_tcp C st c d ev)) = (if c = CMD_CONNECT C then 0 else tcp_replyId st + 1)"
  by (auto simp: executeCmd_tcp_def writeMessage_tcp_def Let_def
      split: sum.splits option.splits net_event.splits)

lemma executeCmd_udp_replyId:
  "udp_replyId (snd (executeCmd_udp C st c d ev)) = (if c = CMD_CONNECT C then 0 else udp_replyId st + 1)"
  by (auto simp: executeCmd_udp_def writeMessage_udp_def Let_def
      split: sum.splits option.splits net_event.splits)

lemma executeCmd_tcp_wire:
  "tcp_wire (snd (executeCmd_tcp C st c d ev)) =
     (case createTCPHeader c (if c = CMD_CONNECT C then 0 else sessionIdValue (tcp_sessionId st))
             (if c = CMD_CONNECT C then 0 else tcp_replyId st + 1) d of
        Inl e \<Rightarrow> tcp_wire st
      | Inr f \<Rightarrow> (case tcp_socket st of None \<Rightarrow> tcp_wire st | Some s \<Rightarrow> tcp_wire st @ [f]))"
  by (auto simp: executeCmd_tcp_def writeMessage_tcp_def Let_def sessionIdValue_def
      split: sum.splits option.splits net_event.splits)

lemma executeCmd_udp_wire:
  "udp_wire (snd (executeCmd_udp C st c d ev)) =
     (case createUDPHeader c (if c = CMD_CONNECT C then 0 else sessionIdValue (udp_sessionId st))
             (if c = CMD_CONNECT C then 0 else udp_replyId st + 1) d of
        Inl e \<Rightarrow> udp_wire st
      | Inr f \<Rightarrow> (case udp_socket st of None \<Rightarrow> udp_wire st | Some s \<Rightarrow> udp_wire st @ [f]))"
  by (auto simp: executeCmd_udp_def writeMessage_udp_def Let_def sessionIdValue_def
      split: sum.splits option.splits net_event.splits)

lemma executeCmd_tcp_emitted:
  "tcp_wire (snd (executeCmd_tcp C st c d ev)) = tcp_wire st
   \<or> (\<exists>f. tcp_wire (snd (executeCmd_tcp C st c d ev)) = tcp_wire st @ [f]
        \<and> readUInt16LE (drop 8 f) 6
            = Inr ((tcp_replyId (snd (executeCmd_tcp C st c d ev)) + 1) mod USHRT_MAX))"
proof -
  define s' where "s' = (if c = CMD_CONNECT C then 0 else sessionIdValue (tcp_sessionId st))"
  define r' where "r' = (if c = CMD_CONNECT C then 0 else tcp_replyId st + 1)"
  have w: "tcp_wire (snd (executeCmd_tcp C st c d ev)) =
     (case createTCPHeader c s' r' d of Inl e \<Rightarrow> tcp_wire st
      | Inr f \<Rightarrow> (case tcp_socket st of None \<Rightarrow> tcp_wire st | Some s \<Rightarrow> tcp_wire st @ [f]))"
    by (simp only: executeCmd_tcp_wire s'_def r'_def)
  have r: "tcp_replyId (snd (executeCmd_tcp C st c d ev)) = r'"
    by (simp only: executeCmd_tcp_replyId r'_def)
  show ?thesis
  proof (cases "createTCPHeader c s' r' d")
    case (Inl e)
    then show ?thesis by (simp add: w)
  next
    case (Inr f)
    from createTCPHeader_replyId [OF Inr] show ?thesis
      by (cases "tcp_socket st") (simp_all add: w r Inr)
  qed
qed

lemma executeCmd_udp_emitted:
  "udp_wire (snd (executeCmd_udp C st c d ev)) = udp_wire st
   \<or> (\<exists>f. udp_wire (snd (executeCmd_udp C st c d ev)) = udp_wire st @ [f]
        \<and> readUInt16LE f 6
            = Inr ((udp_replyId (snd (executeCmd_udp C st c d ev)) + 1) mod USHRT_MAX))"
proof -
  define s' where "s' = (if c = CMD_CONNECT C then 0 else sessionIdValue (udp_sessionId st))"
  define r' where "r' = (if c = CMD_CONNECT C then 0 else udp_replyId st + 1)"
  have w: "udp_wire (snd (executeCmd_udp C st c d ev)) =
     (case createUDPHeader c s' r' d of Inl e \<Rightarrow> udp_wire st
      | Inr f \<Rightarrow> (case udp_socket st of None \<Rightarrow> udp_wire st | Some s \<Rightarrow> udp_wire st @ [f]))"
    by (simp only: executeCmd_udp_wire s'_def r'_def)
  have r: "udp_replyId (snd (executeCmd_udp C st c d ev)) = r'"
    by (simp only: executeCmd_udp_replyId r'_def)
  show ?thesis
  proof (cases "createUDPHeader c s' r' d")
    case (Inl e)
    then show ?thesis by (simp add: w)
  next
    case (Inr f)
    from frame_replyId [OF Inr] show ?thesis
      by (cases "udp_socket st") (simp_all add: w r Inr)
  qed
qed

lemma executeCmd_tcp_overflow:
  "65535 < tcp_replyId (snd (executeCmd_tcp C st c d ev)) \<Longrightarrow>
   executeCmd_tcp C st c d ev = (Rejected ERR_OUT_OF_RANGE, st\<lparr>tcp_replyId := tcp_replyId st + 1\<rparr>)"
  unfolding executeCmd_tcp_replyId
  by (auto simp: executeCmd_tcp_def Let_def createTCPHeader_range split: if_splits)

lemma executeCmd_udp_overflow:
  "65535 < udp_replyId (snd (executeCmd_udp C st c d ev)) \<Longrightarrow>
   executeCmd_udp C st c d ev = (Rejected ERR_OUT_OF_RANGE, st\<lparr>udp_replyId := udp_replyId st + 1\<rparr>)"
  unfolding executeCmd_udp_replyId
  by (auto simp: executeCmd_udp_def Let_def createUDPHeader_range split: if_splits)

text \<open>
  C2, as stated: the reply-id field of every emitted frame equals the counter reduced modulo
  65536.  After \<open>executeCmd(CONNECT)\<close> the counter is 0 on both transports, and the frame
  that was written carries 1 in its reply-id field.
\<close>

theorem executeCmd_connect_frame_replyId:
  "udp_replyId (snd (executeCmd_udp example_commands
       (udp_run (new_ZKLibUDP ''10.20.0.7'' 4370 10000 4000) [UdpCreateSocket, UdpListening 4000])
       1000 [] NoReply)) = 0
   \<and> udp_wire (snd (executeCmd_udp example_commands
       (udp_run (new_ZKLibUDP ''10.20.0.7'' 4370 10000 4000) [UdpCreateSocket, UdpListening 4000])
       1000 [] NoReply)) = [[0xE8, 0x03, 0x16, 0xFC, 0, 0, 1, 0]]
   \<and> readUInt16LE [0xE8, 0x03, 0x16, 0xFC, 0, 0, 1, 0] 6 = Inr 1
   \<and> tcp_replyId (snd (executeCmd_tcp example_commands
       (tcp_run (new_ZKLibTCP ''10.20.0.7'' 4370 10000) [CreateSocket, EmitConnect 0])
       1000 [] NoReply)) = 0
   \<and> tcp_wire (snd (executeCmd_tcp example_commands
       (tcp_run (new_ZKLibTCP ''10.20.0.7'' 4370 10000) [CreateSocket, EmitConnect 0])
       1000 [] NoReply))
       = [[0x50, 0x50, 0x82, 0x7d, 8, 0, 0, 0, 0xE8, 0x03, 0x16, 0xFC, 0, 0, 1, 0]]
   \<and> (0 :: nat) mod 65536 \<noteq> 1"
  by (simp add: executeCmd_udp_replyId executeCmd_udp_wire executeCmd_tcp_replyId
      executeCmd_tcp_wire example_commands_def createUDPHeader_connect createTCPHeader_connect
      udp_run_def new_ZKLibUDP_def tcp_run_defs readUInt16LE_def)

text \<open>
  C2, amended: on both transports \<open>executeCmd(CONNECT, _)\<close> sets the transport's reply id
  to 0 and \<open>executeCmd(c, _)\<close> for every \<open>c\<close> other than \<open>CONNECT\<close> increments it by exactly
  1 (stated for a counter below 65535); the reply-id field of every frame that is emitted
  equals the new counter value plus 1, reduced modulo \<open>USHRT_MAX\<close>.
\<close>

theorem executeCmd_replyId:
  "(c = CMD_CONNECT C \<longrightarrow>
      tcp_replyId (snd (executeCmd_tcp C st c d ev)) = 0
      \<and> udp_replyId (snd (executeCmd_udp C u c d ev)) = 0)
   \<and> (c \<noteq> CMD_CONNECT C \<and> tcp_replyId st < 65535 \<longrightarrow>
      tcp_replyId (snd (executeCmd_tcp C st c d ev)) = tcp_replyId st + 1)
   \<and> (c \<noteq> CMD_CONNECT C \<and> udp_replyId u < 65535 \<longrightarrow>
      udp_replyId (snd (executeCmd_udp C u c d ev)) = udp_replyId u + 1)
   \<and> (tcp_wire (snd (executeCmd_tcp C st c d ev)) = tcp_wire st
      \<or> (\<exists>f. tcp_wire (snd (executeCmd_tcp C st c d ev)) = tcp_wire st @ [f]
           \<and> readUInt16LE (drop 8 f) 6
               = Inr ((tcp_replyId (snd (executeCmd_tcp C st c d ev)) + 1) mod USHRT_MAX)))
   \<and> (udp_wire (snd (executeCmd_udp C u c d ev)) = udp_wire u
      \<or> (\<exists>f. udp_wire (snd (executeCmd_udp C u c d ev)) = udp_wire u @ [f]
           \<and> readUInt16LE f 6
               = Inr ((udp_replyId (snd (executeCmd_udp C u c d ev)) + 1) mod USHRT_MAX)))"
  using executeCmd_tcp_emitted [of C st c d ev] executeCmd_udp_emitted [of C u c d ev]
  by (simp add: executeCmd_tcp_replyId executeCmd_udp_replyId)

text \<open>
  Instances: \<open>CONNECT\<close> (1000 in the example table) on connected transports, where the frame
  written carries 1, and \<open>EXIT\<close> (1001) on transports whose counter is 5.
\<close>

theorem executeCmd_replyId_witness:
  "tcp_replyId (snd (executeCmd_tcp example_commands
       (tcp_run (new_ZKLibTCP ''10.20.0.7'' 4370 10000) [CreateSocket, EmitConnect 0])
       1000 [] NoReply)) = 0
   \<and> udp_replyId (snd (executeCmd_udp example_commands
       (udp_run (new_ZKLibUDP ''10.20.0.7'' 4370 10000 4000) [UdpCreateSocket, UdpListening 4000])
       1000 [] NoReply)) = 0
   \<and> (\<exists>f. udp_wire (snd (executeCmd_udp example_commands
       (udp_run (new_ZKLibUDP ''10.20.0.7'' 4370 10000 4000) [UdpCreateSocket, UdpListening 4000])
       1000 [] NoReply)) = [f]
        \<and> readUInt16LE f 6 = Inr 1)
   \<and> (\<exists>f. tcp_wire (snd (executeCmd_tcp example_commands
       (tcp_run (new_ZKLibTCP ''10.20.0.7'' 4370 10000) [CreateSocket, EmitConnect 0])
       1000 [] NoReply)) = [f]
        \<and> readUInt16LE (drop 8 f) 6 = Inr 1)
   \<and> tcp_replyId (snd (executeCmd_tcp example_commands
       ((tcp_run (new_ZKLibTCP ''10.20.0.7'' 4370 10000) [CreateSocket, EmitConnect 0])
          \<lparr>tcp_replyId := 5\<rparr>)
       1001 [] NoReply)) = 6
   \<and> udp_replyId (snd (executeCmd_udp example_commands
       ((udp_run (new_ZKLibUDP ''10.20.0.7'' 4370 10000 4000)
           [UdpCreateSocket, UdpListening 4000]) \<lparr>udp_replyId := 5\<rparr>)
       1001 [] NoReply)) = 6"
proof -
  let ?T = "tcp_run (new_ZKLibTCP ''10.20.0.7'' 4370 10000) [CreateSocket, EmitConnect 0]"
  let ?U = "udp_run (new_ZKLibUDP ''10.20.0.7'' 4370 10000 4000)
              [UdpCreateSocket, UdpListening 4000]"
  have c: "CMD_CONNECT example_commands = 1000" by (simp add: example_commands_def)
  have m: "(0 + 1) mod USHRT_MAX = 1" by (simp add: USHRT_MAX_def)
  note a = executeCmd_replyId [of 1000 example_commands ?T "[]" NoReply ?U]
  note b = executeCmd_replyId [of 1001 example_commands "?T\<lparr>tcp_replyId := 5\<rparr>" "[]" NoReply
      "?U\<lparr>udp_replyId := 5\<rparr>"]
  have tw: "tcp_wire (snd (executeCmd_tcp example_commands ?T 1000 [] NoReply))
      = [[0x50, 0x50, 0x82, 0x7d, 8, 0, 0, 0, 0xE8, 0x03, 0x16, 0xFC, 0, 0, 1, 0]]"
    and tw0: "tcp_wire ?T = []"
    by (simp_all add: executeCmd_tcp_wire c createTCPHeader_connect tcp_run_defs)
  have uw: "udp_wire (snd (executeCmd_udp example_commands ?U 1000 [] NoReply))
      = [[0xE8, 0x03, 0x16, 0xFC, 0, 0, 1, 0]]"
    and uw0: "udp_wire ?U = []"
    by (simp_all add: executeCmd_udp_wire c createUDPHeader_connect udp_run_def new_ZKLibUDP_def)
  have zero: "tcp_replyId (snd (executeCmd_tcp example_commands ?T 1000 [] NoReply)) = 0"
    "udp_replyId (snd (executeCmd_udp example_commands ?U 1000 [] NoReply)) = 0"
    using a by (simp_all add: c)
  have "\<exists>f. udp_wire (snd (executeCmd_udp example_commands ?U 1000 [] NoReply)) = [f]
        \<and> readUInt16LE f 6 = Inr 1"
    using a unfolding zero uw0 m by (simp add: uw)
  moreover
  have "\<exists>f. tcp_wire (snd (executeCmd_tcp example_commands ?T 1000 [] NoReply)) = [f]
        \<and> readUInt16LE (drop 8 f) 6 = Inr 1"
    using a unfolding zero tw0 m by (simp add: tw)
  moreover
  have "tcp_replyId (snd (executeCmd_tcp example_commands (?T\<lparr>tcp_replyId := 5\<rparr>) 1001 []
            NoReply)) = 6"
    and "udp_replyId (snd (executeCmd_udp example_commands (?U\<lparr>udp_replyId := 5\<rparr>) 1001 []
            NoReply)) = 6"
    using b by (simp_all add: c)
  ultimately show ?thesis using zero by simp
qed

subsection \<open>connect on the TCP transport\<close>

lemma connect_frame:
  assumes "CMD_CONNECT C \<le> 65535"
  shows "\<exists>f. createTCPHeader (CMD_CONNECT C) 0 0 [] = Inr f"
  using createTCPHeader_bytes[of "CMD_CONNECT C" 0 0 "[]"] assms by auto

lemma readUInt16LE_4_cases:
  "readUInt16LE b 4 = (if length b < 6 then Inl ERR_OUT_OF_RANGE
                       else Inr (unat (b ! 4) + 256 * unat (b ! 5)))"
  by (simp add: readUInt16LE_def)

lemma connect_tcp_cases:
  assumes "tcp_socket st = Some sock" and "createTCPHeader (CMD_CONNECT C) 0 0 [] = Inr f"
  shows "connect_tcp C st ev =
    (let st1 = st\<lparr>tcp_sessionId := Some 0, tcp_replyId := 0, tcp_wire := tcp_wire st @ [f]\<rparr> in
     case ev of
       WriteFails m \<Rightarrow> (Rejected (WriteError m), st1)
     | NoReply \<Rightarrow> (if tcp_timeout st \<noteq> 0 then Rejected TIMEOUT_ON_WRITING_MESSAGE else Pending, st1)
     | ReplyArrives reply \<Rightarrow>
         if removeTcpHeader reply = [] then (Resolved True, st1)
         else if length (removeTcpHeader reply) < 6 then (Rejected ERR_OUT_OF_RANGE, st1)
         else (Resolved True,
               st1\<lparr>tcp_sessionId := Some (unat (removeTcpHeader reply ! 4)
                                            + 256 * unat (removeTcpHeader reply ! 5))\<rparr>))"
  using assms
  by (cases ev)
     (simp_all add: connect_tcp_def executeCmd_tcp_def writeMessage_tcp_def Let_def
        sessionIdValue_def readUInt16LE_4_cases)

text \<open>
  C10, as stated: only a write error or a timeout makes \<open>connect()\<close> fail.  With a socket
  present, a reply of three bytes arrives: the write succeeded and no timer expired, and
  \<open>connect()\<close> is rejected with the range error of \<open>readUInt16LE(4)\<close>.
\<close>

theorem connect_tcp_short_reply:
  "tcp_socket (tcp_run (new_ZKLibTCP ''10.20.0.7'' 4370 10000) [CreateSocket, EmitConnect 0])
     \<noteq> None
   \<and> connect_tcp example_commands
       (tcp_run (new_ZKLibTCP ''10.20.0.7'' 4370 10000) [CreateSocket, EmitConnect 0])
       (ReplyArrives [1, 2, 3])
     = (Rejected ERR_OUT_OF_RANGE,
        (tcp_run (new_ZKLibTCP ''10.20.0.7'' 4370 10000) [CreateSocket, EmitConnect 0])
          \<lparr>tcp_sessionId := Some 0, tcp_replyId := 0,
           tcp_wire := [[0x50, 0x50, 0x82, 0x7d, 8, 0, 0, 0,
                         0xE8, 0x03, 0x16, 0xFC, 0, 0, 1, 0]]\<rparr>)"
proof -
  let ?st = "tcp_run (new_ZKLibTCP ''10.20.0.7'' 4370 10000) [CreateSocket, EmitConnect 0]"
  have s: "tcp_socket ?st
      = Some 0"
    and w: "tcp_wire ?st = []"
    by (simp_all add: tcp_run_defs)
  have f: "createTCPHeader (CMD_CONNECT example_commands) 0 0 []
     = Inr [0x50, 0x50, 0x82, 0x7d, 8, 0, 0, 0, 0xE8, 0x03, 0x16, 0xFC, 0, 0, 1, 0]"
    using createTCPHeader_connect by (simp add: example_commands_def)
  have r: "removeTcpHeader [1, 2, 3] = [1, 2, 3]"
    by (simp add: removeTcpHeader_def)
  show ?thesis
    unfolding connect_tcp_cases [OF s f] by (simp add: Let_def r s w)
qed

text \<open>
  C10, amended: on the TCP transport, with a socket present, \<open>connect()\<close> resolves
  successfully when the CONNECT reply, after prefix stripping, is an empty buffer, and the
  session id is then 0, the reset value; \<open>connect()\<close> fails exactly on a write error, on a
  timeout, and on a reply that after prefix stripping is not empty but shorter than 6 bytes.
\<close>

theorem connect_tcp_outcomes:
  assumes "tcp_socket st = Some sock" and "CMD_CONNECT C \<le> 65535"
  shows "(removeTcpHeader reply = [] \<longrightarrow>
            fst (connect_tcp C st (ReplyArrives reply)) = Resolved True
            \<and> tcp_sessionId (snd (connect_tcp C st (ReplyArrives reply))) = Some 0)
       \<and> ((\<exists>e. fst (connect_tcp C st ev) = Rejected e)
            = ((\<exists>m. ev = WriteFails m) \<or> (ev = NoReply \<and> tcp_timeout st \<noteq> 0)
               \<or> (\<exists>r. ev = ReplyArrives r \<and> removeTcpHeader r \<noteq> []
                      \<and> length (removeTcpHeader r) < 6)))"
proof -
  obtain f where f: "createTCPHeader (CMD_CONNECT C) 0 0 [] = Inr f"
    using connect_frame[OF assms(2)] by blast
  note c = connect_tcp_cases[OF assms(1) f]
  have "removeTcpHeader reply = [] \<longrightarrow>
            fst (connect_tcp C st (ReplyArrives reply)) = Resolved True
            \<and> tcp_sessionId (snd (connect_tcp C st (ReplyArrives reply))) = Some 0"
    by (simp add: c Let_def)
  moreover have "(\<exists>e. fst (connect_tcp C st ev) = Rejected e)
            = ((\<exists>m. ev = WriteFails m) \<or> (ev = NoReply \<and> tcp_timeout st \<noteq> 0)
               \<or> (\<exists>r. ev = ReplyArrives r \<and> removeTcpHeader r \<noteq> []
                      \<and> length (removeTcpHeader r) < 6))"
    by (cases ev) (simp_all add: c Let_def)
  ultimately show ?thesis by simp
qed

theorem connect_tcp_outcomes_witness:
  "tcp_socket (tcp_run (new_ZKLibTCP ''10.20.0.7'' 4370 10000) [CreateSocket, EmitConnect 0])
     = Some 0
   \<and> CMD_CONNECT example_commands \<le> 65535
   \<and> removeTcpHeader [0x50, 0x50, 0x82, 0x7d, 0, 0, 0, 0] = []
   \<and> fst (connect_tcp example_commands
          (tcp_run (new_ZKLibTCP ''10.20.0.7'' 4370 10000) [CreateSocket, EmitConnect 0])
          (ReplyArrives [0x50, 0x50, 0x82, 0x7d, 0, 0, 0, 0])) = Resolved True
   \<and> tcp_sessionId (snd (connect_tcp example_commands
          (tcp_run (new_ZKLibTCP ''10.20.0.7'' 4370 10000) [CreateSocket, EmitConnect 0])
          (ReplyArrives [0x50, 0x50, 0x82, 0x7d, 0, 0, 0, 0]))) = Some 0
   \<and> (\<exists>e. fst (connect_tcp example_commands
          (tcp_run (new_ZKLibTCP ''10.20.0.7'' 4370 10000) [CreateSocket, EmitConnect 0])
          NoReply) = Rejected e)"
proof -
  let ?st = "tcp_run (new_ZKLibTCP ''10.20.0.7'' 4370 10000) [CreateSocket, EmitConnect 0]"
  have s: "tcp_socket ?st
      = Some 0"
    and t: "tcp_timeout ?st = 10000"
    by (simp_all add: tcp_run_defs)
  have c: "CMD_CONNECT example_commands \<le> 65535"
    by (simp add: example_commands_def)
  have r: "removeTcpHeader [0x50, 0x50, 0x82, 0x7d, 0, 0, 0, 0] = []"
    by (simp add: removeTcpHeader_def TCP_HEADER_SIGNATURE_def)
  from connect_tcp_outcomes [OF s c, of "[0x50, 0x50, 0x82, 0x7d, 0, 0, 0, 0]" NoReply]
  show ?thesis using s c by (simp add: r t)
qed

subsection \<open>Chunk requests\<close>

lemma read_le32:
  assumes "v \<le> 4294967295"
  shows "unat (of_nat (v mod 256) :: byte) + 256 * unat (of_nat (v div 256 mod 256) :: byte)
         + 65536 * unat (of_nat (v div 65536 mod 256) :: byte)
         + 16777216 * unat (of_nat (v div 16777216) :: byte) = v"
proof -
  have top: "v div 16777216 < 256" using assms by simp
  have 1: "v = v mod 256 + 256 * (v div 256)" by simp
  have 2: "v div 256 = v div 256 mod 256 + 256 * (v div 256 div 256)" by simp
  have 3: "v div 256 div 256 = v div 256 div 256 mod 256 + 256 * (v div 256 div 256 div 256)"
    by simp
  have 4: "v div 256 div 256 = v div 65536"
    by (simp add: div_mult2_eq [symmetric])
  have 5: "v div 65536 div 256 = v div 16777216"
    by (simp add: div_mult2_eq [symmetric])
  have "v mod 256 + 256 * (v div 256 mod 256) + 65536 * (v div 65536 mod 256)
         + 16777216 * (v div 16777216) = v"
    using 1 2 3 unfolding 4 5 by linarith
  then show ?thesis using top by (simp add: unat_byte)
qed

lemma alloc_8: "alloc 8 = [0, 0, 0, 0, 0, 0, 0, 0]"
  using alloc8 [of 0] by simp

lemma chunkRequestBody_bytes:
  "start \<le> 4294967295 \<Longrightarrow> sz \<le> 4294967295 \<Longrightarrow>
   chunkRequestBody start sz = Inr (le32 start @ le32 sz)"
  by (simp add: chunkRequestBody_def bindE_def writeUInt32LE_def alloc_8 le32_def)

lemma decode_le32:
  "start \<le> 4294967295 \<Longrightarrow> sz \<le> 4294967295 \<Longrightarrow> length h = 8 \<Longrightarrow>
   readUInt32LE (h @ le32 start @ le32 sz) 8 = Inr start
   \<and> readUInt32LE (h @ le32 start @ le32 sz) 12 = Inr sz"
  using read_le32 [of start] read_le32 [of sz]
  by (simp add: readUInt32LE_def le32_def nth_append)

lemma chunk_frame_udp:
  assumes "c \<le> 65535" "s \<le> 65535" "r \<le> 65535" "start \<le> 4294967295" "sz \<le> 4294967295"
  shows "\<exists>f. bindE (chunkRequestBody start sz) (createUDPHeader c s r) = Inr f
     \<and> decodeChunkRequest f = (Inr c, Inr start, Inr sz)"
proof -
  obtain f where f: "createUDPHeader c s r (le32 start @ le32 sz) = Inr f"
    using createUDPHeader_bytes [OF assms(1-3)] by blast
  have len: "length f = 16"
    using createUDPHeader_length [OF f] by (simp add: le32_def)
  have body: "drop 8 f = le32 start @ le32 sz" and cmd: "readUInt16LE f 0 = Inr c"
    using frame_replyId [OF f] by simp_all
  have "f = take 8 f @ le32 start @ le32 sz"
    using body append_take_drop_id [of 8 f] by simp
  moreover have "length (take 8 f) = 8" using len by simp
  ultimately have "readUInt32LE f 8 = Inr start \<and> readUInt32LE f 12 = Inr sz"
    using decode_le32 [OF assms(4,5), of "take 8 f"] by simp
  then show ?thesis
    using f cmd by (simp add: chunkRequestBody_bytes [OF assms(4,5)] bindE_def decodeChunkRequest_def)
qed

lemma chunk_frame_tcp:
  assumes "c \<le> 65535" "s \<le> 65535" "r \<le> 65535" "start \<le> 4294967295" "sz \<le> 4294967295"
  shows "\<exists>f. bindE (chunkRequestBody start sz) (createTCPHeader c s r) = Inr f
     \<and> decodeChunkRequest (drop 8 f) = (Inr c, Inr start, Inr sz)"
proof -
  obtain g where g: "bindE (chunkRequestBody start sz) (createUDPHeader c s r) = Inr g"
    and d: "decodeChunkRequest g = (Inr c, Inr start, Inr sz)"
    using chunk_frame_udp [OF assms] by blast
  have g': "createUDPHeader c s r (le32 start @ le32 sz) = Inr g"
    using g by (simp add: chunkRequestBody_bytes [OF assms(4,5)] bindE_def)
  have "length (le32 start @ le32 sz) \<le> 65527" by (simp add: le32_def)
  from createTCPHeader_bytes [OF assms(1-3) this] g'
  have "createTCPHeader c s r (le32 start @ le32 sz)
      = Inr ([0x50, 0x50, 0x82, 0x7d] @ le16 (8 + length (le32 start @ le32 sz)) @ [0, 0] @ g)"
    by simp
  then show ?thesis
    using d by (simp add: chunkRequestBody_bytes [OF assms(4,5)] bindE_def le16_def)
qed

lemma sendChunkRequest_udp_ok:
  assumes "udp_socket st = Some usock" "CMD_DATA_RDY C \<le> 65535"
    "sessionIdValue (udp_sessionId st) \<le> 65535" "udp_replyId st + 1 \<le> 65535"
    "start \<le> 4294967295" "sz \<le> 4294967295"
  shows "\<exists>f. sendChunkRequest_udp C st start sz
       = (Inr (), st\<lparr>udp_replyId := udp_replyId st + 1, udp_wire := udp_wire st @ [f]\<rparr>)
     \<and> decodeChunkRequest f = (Inr (CMD_DATA_RDY C), Inr start, Inr sz)"
  using chunk_frame_udp [OF assms(2,3,4,5,6)] assms(1)
  by (auto simp: sendChunkRequest_udp_def Let_def)

lemma sendChunkRequest_tcp_ok:
  assumes "tcp_socket st = Some sock" "CMD_DATA_RDY C \<le> 65535"
    "sessionIdValue (tcp_sessionId st) \<le> 65535" "tcp_replyId st + 1 \<le> 65535"
    "start \<le> 4294967295" "sz \<le> 4294967295"
  shows "\<exists>f. sendChunkRequest_tcp C st start sz
       = (Inr (), st\<lparr>tcp_replyId := tcp_replyId st + 1, tcp_wire := tcp_wire st @ [f]\<rparr>)
     \<and> decodeChunkRequest (drop 8 f) = (Inr (CMD_DATA_RDY C), Inr start, Inr sz)"
  using chunk_frame_tcp [OF assms(2,3,4,5,6)] assms(1)
  by (auto simp: sendChunkRequest_tcp_def Let_def)

lemma chunkLoop_udp_requests:
  assumes "udp_socket st = Some usock" "CMD_DATA_RDY C \<le> 65535"
    "sessionIdValue (udp_sessionId st) \<le> 65535"
    "i \<le> n" "udp_replyId st + (n + 1 - i) \<le> 65535"
    "n * M \<le> 4294967295" "remain \<le> 4294967295" "0 < n \<longrightarrow> M \<le> 4294967295"
  shows "\<exists>st' fs. chunkLoop_udp C M n remain i st = (Inr (), st')
       \<and> udp_wire st' = udp_wire st @ fs
       \<and> map decodeChunkRequest fs
           = map (\<lambda>(a, b). (Inr (CMD_DATA_RDY C), Inr a, Inr b))
               (map (\<lambda>j. (j * M, M)) [i..<n] @ [(n * M, remain)])"
  using assms
proof (induction "n - i" arbitrary: i st)
  case 0
  then have i: "i = n" by simp
  from 0 have r: "udp_replyId st + 1 \<le> 65535" by simp
  obtain f where f: "sendChunkRequest_udp C st (n * M) remain
       = (Inr (), st\<lparr>udp_replyId := udp_replyId st + 1, udp_wire := udp_wire st @ [f]\<rparr>)"
    and d: "decodeChunkRequest f = (Inr (CMD_DATA_RDY C), Inr (n * M), Inr remain)"
    using sendChunkRequest_udp_ok [OF "0.prems"(1,2,3) r "0.prems"(6,7)] by blast
  show ?case
    by (subst chunkLoop_udp.simps, subst chunkLoop_udp.simps) (simp add: i f d)
next
  case (Suc k)
  then have lt: "i < n" by simp
  then have M: "M \<le> 4294967295" using Suc.prems by simp
  have "i * M \<le> n * M" using lt by (intro mult_le_mono1) simp
  from this Suc.prems(6) have start: "i * M \<le> 4294967295" by (rule order_trans)
  from Suc.prems lt have r: "udp_replyId st + 1 \<le> 65535" by simp
  obtain f where f: "sendChunkRequest_udp C st (i * M) M
       = (Inr (), st\<lparr>udp_replyId := udp_replyId st + 1, udp_wire := udp_wire st @ [f]\<rparr>)"
    and d: "decodeChunkRequest f = (Inr (CMD_DATA_RDY C), Inr (i * M), Inr M)"
    using sendChunkRequest_udp_ok [OF Suc.prems(1,2,3) r start M] by blast
  let ?st1 = "st\<lparr>udp_replyId := udp_replyId st + 1, udp_wire := udp_wire st @ [f]\<rparr>"
  have k: "k = n - (i + 1)" using Suc.hyps(2) by simp
  have "\<exists>st' fs. chunkLoop_udp C M n remain (i + 1) ?st1 = (Inr (), st')
       \<and> udp_wire st' = udp_wire ?st1 @ fs
       \<and> map decodeChunkRequest fs
           = map (\<lambda>(a, b). (Inr (CMD_DATA_RDY C), Inr a, Inr b))
               (map (\<lambda>j. (j * M, M)) [i + 1..<n] @ [(n * M, remain)])"
    using Suc.prems lt by (intro Suc.hyps(1) [OF k]) simp_all
  then obtain st' fs where loop: "chunkLoop_udp C M n remain (i + 1) ?st1 = (Inr (), st')"
    and w: "udp_wire st' = udp_wire ?st1 @ fs"
    and m: "map decodeChunkRequest fs
           = map (\<lambda>(a, b). (Inr (CMD_DATA_RDY C), Inr a, Inr b))
               (map (\<lambda>j. (j * M, M)) [i + 1..<n] @ [(n * M, remain)])"
    by blast
  have "chunkLoop_udp C M n remain i st = (Inr (), st')"
    using lt loop by (subst chunkLoop_udp.simps) (simp add: f)
  moreover have "udp_wire st' = udp_wire st @ (f # fs)" using w by simp
  moreover have "map decodeChunkRequest (f # fs)
           = map (\<lambda>(a, b). (Inr (CMD_DATA_RDY C), Inr a, Inr b))
               (map (\<lambda>j. (j * M, M)) [i..<n] @ [(n * M, remain)])"
    using lt by (simp add: upt_conv_Cons d m)
  ultimately show ?case by blast
qed

lemma chunkLoop_tcp_requests:
  assumes "tcp_socket st = Some sock" "CMD_DATA_RDY C \<le> 65535"
    "sessionIdValue (tcp_sessionId st) \<le> 65535"
    "i \<le> n" "tcp_replyId st + (n + 1 - i) \<le> 65535"
    "n * M \<le> 4294967295" "remain \<le> 4294967295" "0 < n \<longrightarrow> M \<le> 4294967295"
  shows "\<exists>st' fs. chunkLoop_tcp C M n remain i st = (Inr (), st')
       \<and> tcp_wire st' = tcp_wire st @ fs
       \<and> map (\<lambda>f. decodeChunkRequest (drop 8 f)) fs
           = map (\<lambda>(a, b). (Inr (CMD_DATA_RDY C), Inr a, Inr b))
               (map (\<lambda>j. (j * M, M)) [i..<n] @ [(n * M, remain)])"
  using assms
proof (induction "n - i" arbitrary: i st)
  case 0
  then have i: "i = n" by simp
  from 0 have r: "tcp_replyId st + 1 \<le> 65535" by simp
  obtain f where f: "sendChunkRequest_tcp C st (n * M) remain
       = (Inr (), st\<lparr>tcp_replyId := tcp_replyId st + 1, tcp_wire := tcp_wire st @ [f]\<rparr>)"
    and d: "decodeChunkRequest (drop 8 f) = (Inr (CMD_DATA_RDY C), Inr (n * M), Inr remain)"
    using sendChunkRequest_tcp_ok [OF "0.prems"(1,2,3) r "0.prems"(6,7)] by blast
  show ?case
    by (subst chunkLoop_tcp.simps, subst chunkLoop_tcp.simps) (simp add: i f d)
next
  case (Suc k)
  then have lt: "i < n" by simp
  then have M: "M \<le> 4294967295" using Suc.prems by simp
  have "i * M \<le> n * M" using lt by (intro mult_le_mono1) simp
  from this Suc.prems(6) have start: "i * M \<le> 4294967295" by (rule order_trans)
  from Suc.prems lt have r: "tcp_replyId st + 1 \<le> 65535" by simp
  obtain f where f: "sendChunkRequest_tcp C st (i * M) M
       = (Inr (), st\<lparr>tcp_replyId := tcp_replyId st + 1, tcp_wire := tcp_wire st @ [f]\<rparr>)"
    and d: "decodeChunkRequest (drop 8 f) = (Inr (CMD_DATA_RDY C), Inr (i * M), Inr M)"
    using sendChunkRequest_tcp_ok [OF Suc.prems(1,2,3) r start M] by blast
  let ?st1 = "st\<lparr>tcp_replyId := tcp_replyId st + 1, tcp_wire := tcp_wire st @ [f]\<rparr>"
  have k: "k = n - (i + 1)" using Suc.hyps(2) by simp
  have "\<exists>st' fs. chunkLoop_tcp C M n remain (i + 1) ?st1 = (Inr (), st')
       \<and> tcp_wire st' = tcp_wire ?st1 @ fs
       \<and> map (\<lambda>f. decodeChunkRequest (drop 8 f)) fs
           = map (\<lambda>(a, b). (Inr (CMD_DATA_RDY C), Inr a, Inr b))
               (map (\<lambda>j. (j * M, M)) [i + 1..<n] @ [(n * M, remain)])"
    using Suc.prems lt by (intro Suc.hyps(1) [OF k]) simp_all
  then obtain st' fs where loop: "chunkLoop_tcp C M n remain (i + 1) ?st1 = (Inr (), st')"
    and w: "tcp_wire st' = tcp_wire ?st1 @ fs"
    and m: "map (\<lambda>f. decodeChunkRequest (drop 8 f)) fs
           = map (\<lambda>(a, b). (Inr (CMD_DATA_RDY C), Inr a, Inr b))
               (map (\<lambda>j. (j * M, M)) [i + 1..<n] @ [(n * M, remain)])"
    by blast
  have "chunkLoop_tcp C M n remain i st = (Inr (), st')"
    using lt loop by (subst chunkLoop_tcp.simps) (simp add: f)
  moreover have "tcp_wire st' = tcp_wire st @ (f # fs)" using w by simp
  moreover have "map (\<lambda>f. decodeChunkRequest (drop 8 f)) (f # fs)
           = map (\<lambda>(a, b). (Inr (CMD_DATA_RDY C), Inr a, Inr b))
               (map (\<lambda>j. (j * M, M)) [i..<n] @ [(n * M, remain)])"
    using lt by (simp add: upt_conv_Cons d m)
  ultimately show ?case by blast
qed


lemma expectedRequests_sum:
  "sum_list (map snd (expectedRequests M n)) = n \<and> length (expectedRequests M n) = n div M + 1"
proof -
  have "sum_list (map snd (map (\<lambda>i. (i * M, M)) [0..<k])) = k * M" for k
    by (induction k) simp_all
  then show ?thesis by (simp add: expectedRequests_def)
qed

text \<open>
  While the transport can send and the reply ids fit 16 bits, the loops issue the requests
  that C4 describes.  Let the announced size \<open>n\<close> fit 32 bits and \<open>MAX_CHUNK\<close> be positive, let
  a socket be present, and let the session id, the opcode and the reply ids the loop will
  use fit 16 bits.  Then the loop of either transport returns after writing exactly
  \<open>n div MAX_CHUNK + 1\<close> frames, which are DATA_RDY requests: one of size \<open>MAX_CHUNK\<close> at each
  of the starts 0, \<open>MAX_CHUNK\<close>, \<open>2 * MAX_CHUNK\<close>, ... below \<open>n div MAX_CHUNK * MAX_CHUNK\<close>, then
  one of size \<open>n mod MAX_CHUNK\<close> (of size 0 when \<open>n\<close> is a multiple of \<open>MAX_CHUNK\<close>) at
  \<open>n div MAX_CHUNK * MAX_CHUNK\<close>; the sizes add up to \<open>n\<close>.
\<close>

lemma chunk_requests_in_range:
  assumes "0 < M" and "n \<le> 4294967295" and "CMD_DATA_RDY C \<le> 65535"
    and "tcp_socket st = Some sock" and "sessionIdValue (tcp_sessionId st) \<le> 65535"
    and "tcp_replyId st + n div M + 1 \<le> 65535"
    and "udp_socket u = Some usock" and "sessionIdValue (udp_sessionId u) \<le> 65535"
    and "udp_replyId u + n div M + 1 \<le> 65535"
  shows "(\<exists>st' fs. requestChunks_tcp C M st n = (Inr (), st')
            \<and> tcp_wire st' = tcp_wire st @ fs
            \<and> map (\<lambda>f. decodeChunkRequest (drop 8 f)) fs
                = map (\<lambda>(a, b). (Inr (CMD_DATA_RDY C), Inr a, Inr b)) (expectedRequests M n))
       \<and> (\<exists>u' fs. requestChunks_udp C M u n = (Inr (), u')
            \<and> udp_wire u' = udp_wire u @ fs
            \<and> map decodeChunkRequest fs
                = map (\<lambda>(a, b). (Inr (CMD_DATA_RDY C), Inr a, Inr b)) (expectedRequests M n))
       \<and> sum_list (map snd (expectedRequests M n)) = n
       \<and> length (expectedRequests M n) = n div M + 1"
proof -
  have chunks: "(n - n mod M) div M = n div M"
    using assms(1) by (metis div_mult_mod_eq add_diff_cancel_right' nonzero_mult_div_cancel_right less_numeral_extra(3))
  have le: "n div M * M \<le> n" by simp
  from le assms(2) have start: "n div M * M \<le> 4294967295" by (rule order_trans)
  have "n mod M \<le> n" by simp
  from this assms(2) have remain: "n mod M \<le> 4294967295" by (rule order_trans)
  have full: "0 < n div M \<longrightarrow> M \<le> 4294967295"
  proof
    assume "0 < n div M"
    then have "M \<le> n" using assms(1) by (simp add: div_greater_zero_iff)
    from this assms(2) show "M \<le> 4294967295" by (rule order_trans)
  qed
  have t: "tcp_replyId st + (n div M + 1 - 0) \<le> 65535" using assms(6) by simp
  have v: "udp_replyId u + (n div M + 1 - 0) \<le> 65535" using assms(9) by simp
  show ?thesis
    using chunkLoop_tcp_requests [OF assms(4,3,5) le0 t start remain full]
      chunkLoop_udp_requests [OF assms(7,3,8) le0 v start remain full]
      expectedRequests_sum [of M n]
    by (simp add: requestChunks_tcp_def requestChunks_udp_def chunks expectedRequests_def Let_def)
qed

text \<open>An instance: 131000 bytes announced, with \<open>MAX_CHUNK\<close> = 65472.\<close>

lemma chunk_requests_in_range_example:
  "expectedRequests 65472 131000 = [(0, 65472), (65472, 65472), (130944, 56)]
   \<and> (\<exists>st' fs. requestChunks_tcp example_commands 65472
            (tcp_run (new_ZKLibTCP ''10.20.0.7'' 4370 10000) [CreateSocket, EmitConnect 0]) 131000
          = (Inr (), st')
        \<and> tcp_wire st' = fs
        \<and> map (\<lambda>f. decodeChunkRequest (drop 8 f)) fs
            = [(Inr 1504, Inr 0, Inr 65472), (Inr 1504, Inr 65472, Inr 65472),
               (Inr 1504, Inr 130944, Inr 56)])
   \<and> (\<exists>u' fs. requestChunks_udp example_commands 65472
            (udp_run (new_ZKLibUDP ''10.20.0.7'' 4370 10000 4000)
               [UdpCreateSocket, UdpListening 4000]) 131000
          = (Inr (), u')
        \<and> udp_wire u' = fs
        \<and> map decodeChunkRequest fs
            = [(Inr 1504, Inr 0, Inr 65472), (Inr 1504, Inr 65472, Inr 65472),
               (Inr 1504, Inr 130944, Inr 56)])
   \<and> sum_list (map snd (expectedRequests 65472 131000)) = 131000"
proof -
  let ?T = "tcp_run (new_ZKLibTCP ''10.20.0.7'' 4370 10000) [CreateSocket, EmitConnect 0]"
  let ?U = "udp_run (new_ZKLibUDP ''10.20.0.7'' 4370 10000 4000)
              [UdpCreateSocket, UdpListening 4000]"
  have "[0..<2] = [0, 1 :: nat]"
    by (simp add: upt_rec)
  then have e: "expectedRequests 65472 131000 = [(0, 65472), (65472, 65472), (130944, 56)]"
    by (simp add: expectedRequests_def)
  have T: "tcp_socket ?T
      = Some 0"
    "sessionIdValue (tcp_sessionId ?T) \<le> 65535" "tcp_replyId ?T + 131000 div 65472 + 1 \<le> 65535"
    "tcp_wire ?T = []"
    by (simp_all add: tcp_run_defs sessionIdValue_def)
  have U: "udp_socket ?U = Some \<lparr>boundPort = Some 4000\<rparr>"
    "sessionIdValue (udp_sessionId ?U) \<le> 65535" "udp_replyId ?U + 131000 div 65472 + 1 \<le> 65535"
    "udp_wire ?U = []"
    by (simp_all add: udp_run_def new_ZKLibUDP_def sessionIdValue_def)
  have C: "CMD_DATA_RDY example_commands \<le> 65535" "CMD_DATA_RDY example_commands = 1504"
    by (simp_all add: example_commands_def)
  have M: "(0 :: nat) < 65472" and n: "(131000 :: nat) \<le> 4294967295"
    by simp_all
  from chunk_requests_in_range [OF M n C(1) T(1,2,3) U(1,2,3)]
  show ?thesis
    by (simp add: e C(2) T(4) U(4))
qed

text \<open>
  The reply id is a counter that every command increments and only \<open>CONNECT\<close> resets.  Once
  it has reached 65535, the next \<open>sendChunkRequest\<close> makes it 65536 and the frame builder
  throws on \<open>writeUInt16LE(replyId, 6)\<close>: the loop stops at its first request.
\<close>

lemma chunkRequestBody_error: "chunkRequestBody a b = Inl e \<Longrightarrow> e = ERR_OUT_OF_RANGE"
  by (auto simp: chunkRequestBody_def bindE_def writeUInt32LE_def split: if_splits sum.splits)

lemma sendChunkRequest_tcp_overflow:
  assumes "65535 \<le> tcp_replyId st"
  shows "sendChunkRequest_tcp C st a b
     = (Inl ERR_OUT_OF_RANGE, st\<lparr>tcp_replyId := tcp_replyId st + 1\<rparr>)"
proof (cases "chunkRequestBody a b")
  case (Inl e)
  then show ?thesis
    using chunkRequestBody_error [OF Inl] by (simp add: sendChunkRequest_tcp_def bindE_def)
next
  case (Inr body)
  have "createTCPHeader (CMD_DATA_RDY C) (sessionIdValue (tcp_sessionId st)) (tcp_replyId st + 1)
      body = Inl ERR_OUT_OF_RANGE"
    using assms by (intro createTCPHeader_range) simp
  then show ?thesis
    by (simp add: sendChunkRequest_tcp_def bindE_def Inr)
qed

lemma sendChunkRequest_udp_overflow:
  assumes "65535 \<le> udp_replyId st" and "udp_socket st = Some usock"
  shows "sendChunkRequest_udp C st a b
     = (Inl ERR_OUT_OF_RANGE, st\<lparr>udp_replyId := udp_replyId st + 1\<rparr>)"
proof (cases "chunkRequestBody a b")
  case (Inl e)
  then show ?thesis
    using chunkRequestBody_error [OF Inl] assms(2)
    by (simp add: sendChunkRequest_udp_def bindE_def)
next
  case (Inr body)
  have "createUDPHeader (CMD_DATA_RDY C) (sessionIdValue (udp_sessionId st)) (udp_replyId st + 1)
      body = Inl ERR_OUT_OF_RANGE"
    using assms(1) by (intro createUDPHeader_range) simp
  then show ?thesis
    using assms(2) by (simp add: sendChunkRequest_udp_def bindE_def Inr)
qed

lemma requestChunks_tcp_overflow:
  "65535 \<le> tcp_replyId st \<Longrightarrow>
   requestChunks_tcp C M st n = (Inl ERR_OUT_OF_RANGE, st\<lparr>tcp_replyId := tcp_replyId st + 1\<rparr>)"
  by (simp add: requestChunks_tcp_def Let_def chunkLoop_tcp.simps [of _ _ _ _ 0]
      sendChunkRequest_tcp_overflow)

lemma requestChunks_udp_overflow:
  "65535 \<le> udp_replyId st \<Longrightarrow> udp_socket st = Some usock \<Longrightarrow>
   requestChunks_udp C M st n = (Inl ERR_OUT_OF_RANGE, st\<lparr>udp_replyId := udp_replyId st + 1\<rparr>)"
  by (simp add: requestChunks_udp_def Let_def chunkLoop_udp.simps [of _ _ _ _ 0]
      sendChunkRequest_udp_overflow)

lemma executeCmd_udp_socket:
  "udp_socket (snd (executeCmd_udp C st c d ne)) = udp_socket st"
  by (auto simp: executeCmd_udp_def writeMessage_udp_def Let_def
      split: sum.splits option.splits net_event.splits if_splits)

lemma repeat_executeCmd_tcp:
  assumes "c \<noteq> CMD_CONNECT C"
  shows "tcp_replyId (((\<lambda>s. snd (executeCmd_tcp C s c d ev)) ^^ k) st) = tcp_replyId st + k
     \<and> tcp_socket (((\<lambda>s. snd (executeCmd_tcp C s c d ev)) ^^ k) st) = tcp_socket st"
  using assms by (induction k) (simp_all add: executeCmd_tcp_replyId executeCmd_tcp_sockets)

lemma repeat_executeCmd_udp:
  assumes "c \<noteq> CMD_CONNECT C"
  shows "udp_replyId (((\<lambda>s. snd (executeCmd_udp C s c d ev)) ^^ k) st) = udp_replyId st + k
     \<and> udp_socket (((\<lambda>s. snd (executeCmd_udp C s c d ev)) ^^ k) st) = udp_socket st"
  using assms by (induction k) (simp_all add: executeCmd_udp_replyId executeCmd_udp_socket)

text \<open>
  C4: for every announced size the chunked-receive loop of either transport issues
  \<open>n div MAX_CHUNK\<close> requests of size \<open>MAX_CHUNK\<close> and one final request of size
  \<open>n mod MAX_CHUNK\<close>.  The code does not on a transport that has run 65535 commands since
  \<open>CONNECT\<close> (here \<open>FREE_DATA\<close>, 1502 in the example table, whatever the device answers):
  its reply id is 65535, and for every announced size \<open>n\<close> and every \<open>MAX_CHUNK\<close> the loop
  returns the range error of the frame builder, having written no frame at all, where
  \<open>expectedRequests\<close> lists at least the final request.
\<close>

theorem chunk_requests_reply_id_overflow:
  "udp_replyId (((\<lambda>s. snd (executeCmd_udp example_commands s 1502 [] ev)) ^^ 65535)
      (udp_run (new_ZKLibUDP ''10.20.0.7'' 4370 10000 4000) [UdpCreateSocket, UdpListening 4000]))
     = 65535
   \<and> fst (requestChunks_udp example_commands M
      (((\<lambda>s. snd (executeCmd_udp example_commands s 1502 [] ev)) ^^ 65535)
        (udp_run (new_ZKLibUDP ''10.20.0.7'' 4370 10000 4000)
           [UdpCreateSocket, UdpListening 4000])) n) = Inl ERR_OUT_OF_RANGE
   \<and> udp_wire (snd (requestChunks_udp example_commands M
      (((\<lambda>s. snd (executeCmd_udp example_commands s 1502 [] ev)) ^^ 65535)
        (udp_run (new_ZKLibUDP ''10.20.0.7'' 4370 10000 4000)
           [UdpCreateSocket, UdpListening 4000])) n))
     = udp_wire (((\<lambda>s. snd (executeCmd_udp example_commands s 1502 [] ev)) ^^ 65535)
        (udp_run (new_ZKLibUDP ''10.20.0.7'' 4370 10000 4000)
           [UdpCreateSocket, UdpListening 4000]))
   \<and> tcp_replyId (((\<lambda>s. snd (executeCmd_tcp example_commands s 1502 [] ev)) ^^ 65535)
      (tcp_run (new_ZKLibTCP ''10.20.0.7'' 4370 10000) [CreateSocket, EmitConnect 0]))
     = 65535
   \<and> fst (requestChunks_tcp example_commands M
      (((\<lambda>s. snd (executeCmd_tcp example_commands s 1502 [] ev)) ^^ 65535)
        (tcp_run (new_ZKLibTCP ''10.20.0.7'' 4370 10000) [CreateSocket, EmitConnect 0])) n)
     = Inl ERR_OUT_OF_RANGE
   \<and> tcp_wire (snd (requestChunks_tcp example_commands M
      (((\<lambda>s. snd (executeCmd_tcp example_commands s 1502 [] ev)) ^^ 65535)
        (tcp_run (new_ZKLibTCP ''10.20.0.7'' 4370 10000) [CreateSocket, EmitConnect 0])) n))
     = tcp_wire (((\<lambda>s. snd (executeCmd_tcp example_commands s 1502 [] ev)) ^^ 65535)
        (tcp_run (new_ZKLibTCP ''10.20.0.7'' 4370 10000) [CreateSocket, EmitConnect 0]))
   \<and> expectedRequests M n \<noteq> []"
proof -
  let ?A = "tcp_run (new_ZKLibTCP ''10.20.0.7'' 4370 10000) [CreateSocket, EmitConnect 0]"
  let ?B = "udp_run (new_ZKLibUDP ''10.20.0.7'' 4370 10000 4000)
               [UdpCreateSocket, UdpListening 4000]"
  let ?T = "((\<lambda>s. snd (executeCmd_tcp example_commands s 1502 [] ev)) ^^ 65535) ?A"
  let ?U = "((\<lambda>s. snd (executeCmd_udp example_commands s 1502 [] ev)) ^^ 65535) ?B"
  have c: "1502 \<noteq> CMD_CONNECT example_commands" by (simp add: example_commands_def)
  have A: "tcp_replyId ?A = 0" by (simp add: tcp_run_defs)
  have B: "udp_replyId ?B = 0" "udp_socket ?B = Some \<lparr>boundPort = Some 4000\<rparr>"
    by (simp_all add: udp_run_def new_ZKLibUDP_def)
  have T: "tcp_replyId ?T = 65535"
    using repeat_executeCmd_tcp [OF c, where k = 65535 and st = ?A and d = "[]"
        and ev = ev] by (simp add: A)
  have U: "udp_replyId ?U = 65535" and Us: "udp_socket ?U = Some \<lparr>boundPort = Some 4000\<rparr>"
    using repeat_executeCmd_udp [OF c, where k = 65535 and st = ?B and d = "[]"
        and ev = ev] by (simp_all add: B)
  have "65535 \<le> tcp_replyId ?T" by (simp add: T)
  from requestChunks_tcp_overflow [OF this, of example_commands M n]
  have t: "fst (requestChunks_tcp example_commands M ?T n) = Inl ERR_OUT_OF_RANGE"
    "tcp_wire (snd (requestChunks_tcp example_commands M ?T n)) = tcp_wire ?T"
    by simp_all
  have "65535 \<le> udp_replyId ?U" by (simp add: U)
  from requestChunks_udp_overflow [OF this Us, of example_commands M n]
  have u: "fst (requestChunks_udp example_commands M ?U n) = Inl ERR_OUT_OF_RANGE"
    "udp_wire (snd (requestChunks_udp example_commands M ?U n)) = udp_wire ?U"
    by simp_all
  have "expectedRequests M n \<noteq> []" by (simp add: expectedRequests_def)
  then show ?thesis using T U t u by simp
qed

subsection \<open>setUser\<close>

lemma parseInt_examples:
  "parseInt ''70000'' = Some 70000" "parseInt ''1'' = Some 1" "parseInt ''-5'' = Some (-5)"
  by (simp_all add: parseInt_def isWhiteSpace_def digitOf_def Let_def)

lemmas Number_defs =
  Number_str_def trim_def isWhiteSpace_def radixLiteral_def digitsIn_def digitsValue_def
  digitOf_def decimalLiteral_def exponentPart_def isDecimalDigit_def exactNumber_def
  toString9_def toStringRadix.simps digitChar_def Let_def

lemma toString9_example: "map_option toString9 (Number_str ''9'') = Some ''10''"
  by (simp add: Number_defs)

text \<open>Other literals that \<open>Number\<close> reads: a sign, a radix prefix, an exponent, padding.\<close>

lemma Number_str_examples:
  "map_option toString9 (Number_str ''-5'') = Some ''-5''"
  "map_option toString9 (Number_str ''0x10'') = Some ''17''"
  "map_option toString9 (Number_str ''1e2'') = Some ''121''"
  "map_option toString9 (Number_str '' 12 '') = Some ''13''"
  "map_option toString9 (Number_str ''12.0'') = Some ''13''"
  "map_option toString9 (Number_str ''abc'') = Some ''NaN''"
  "Number_str ''1.5'' = None"
  by (simp_all add: Number_defs)

lemma alloc_72:
  "alloc 72 = [0,0,0,0,0,0,0,0, 0,0,0,0,0,0,0,0, 0,0,0,0,0,0,0,0, 0,0,0,0,0,0,0,0,
               0,0,0,0,0,0,0,0, 0,0,0,0,0,0,0,0, 0,0,0,0,0,0,0,0, 0,0,0,0,0,0,0,0,
               0,0,0,0,0,0,0,0]"
  by (simp add: alloc_def numeral_eq_Suc)

lemmas setUser_limits =
  MAX_UID_def MAX_USERID_LENGTH_def MAX_NAME_LENGTH_def MAX_PASSWORD_LENGTH_def
  MAX_CARDNO_LENGTH_def

lemma setUser_command_string_cardno:
  "setUser_command_string ''1'' ''9'' ''A'' [] 0 ''70000'' = Some (Inl ERR_OUT_OF_RANGE)"
  by (simp add: setUser_command_string_def parseInt_examples setUser_limits alloc_72
      writeUInt16LE_num_def writeUInt16LE_def bindE_def write_string_def copy_def Let_def)

lemma setUser_command_string_uid:
  "setUser_command_string ''-5'' ''9'' ''A'' [] 0 ''1'' = Some (Inl ERR_OUT_OF_RANGE)"
  by (simp add: setUser_command_string_def parseInt_examples setUser_limits alloc_72
      writeUInt16LE_num_def writeUInt16LE_def bindE_def write_string_def copy_def Let_def)

lemma setUser_command_string_userid:
  "setUser_command_string ''1'' ''9'' ''A'' [] 0 ''1''
   = Some (Inr [1,0,0,0,0,0,0,0, 0,0,0,0x41,0,0,0,0, 0,0,0,0,0,0,0,0, 0,0,0,0,0,0,0,0,
                0,0,0,1,0,0,0,0, 0,0,0,0,0,0,0,0, 0x31,0x30,0,0,0,0,0,0, 0,0,0,0,0,0,0,0,
                0,0,0,0,0,0,0,0])"
proof -
  have n: "Number_str ''9'' = Some (Num 9)" and t: "toString9 (Num 9) = ''10''"
    by (simp_all add: Number_defs)
  show ?thesis
    by (simp add: setUser_command_string_def parseInt_examples setUser_limits alloc_72
        writeUInt16LE_num_def writeUInt16LE_def writeUInt32LE_def bindE_def write_string_def
        copy_def Let_def n t)
qed

text \<open>
  C6: \<open>setUser\<close> fails with the invalid-input error on every input outside the bounds, and on
  every input inside them sends USER_WRQ with the 72-byte record: cardno as 32 bits at
  offset 35 and the userId string at offset 48.  The code does otherwise on these inputs.
  With uid \<open>1\<close>, userId \<open>9\<close>, name \<open>A\<close>, an empty password, role 0 and cardno \<open>70000\<close>, all
  inside the bounds, nothing is sent: cardno is written as 16 bits and the write throws.
  With cardno \<open>1\<close> instead, the payload is built, and bytes 48-49 are \<open>31 30\<close>, the text
  \<open>10\<close>, which is 9 written in base 9.  With uid \<open>-5\<close>, outside the bounds, the error is
  the range error of the write, not the invalid-input error.
\<close>

theorem setUser_failing_inputs:
  "setUser example_commands
       (tcp_run (new_ZKLibTCP ''10.20.0.7'' 4370 10000) [CreateSocket, EmitConnect 0])
       ''1'' ''9'' ''A'' [] 0 ''70000'' NoReply
     = Some (Rejected (Failed_to_set_user ERR_OUT_OF_RANGE),
             tcp_run (new_ZKLibTCP ''10.20.0.7'' 4370 10000) [CreateSocket, EmitConnect 0])
   \<and> setUser_command_string ''1'' ''9'' ''A'' [] 0 ''1''
     = Some (Inr [1,0,0,0,0,0,0,0, 0,0,0,0x41,0,0,0,0, 0,0,0,0,0,0,0,0, 0,0,0,0,0,0,0,0,
                  0,0,0,1,0,0,0,0, 0,0,0,0,0,0,0,0, 0x31,0x30,0,0,0,0,0,0, 0,0,0,0,0,0,0,0,
                  0,0,0,0,0,0,0,0])
   \<and> setUser example_commands
       (tcp_run (new_ZKLibTCP ''10.20.0.7'' 4370 10000) [CreateSocket, EmitConnect 0])
       ''-5'' ''9'' ''A'' [] 0 ''1'' NoReply
     = Some (Rejected (Failed_to_set_user ERR_OUT_OF_RANGE),
             tcp_run (new_ZKLibTCP ''10.20.0.7'' 4370 10000) [CreateSocket, EmitConnect 0])"
  by (simp add: setUser_def setUser_command_string_cardno setUser_command_string_uid
      setUser_command_string_userid)

end
